theory Spec2Isabelle
  imports Complex_Main
begin

section \<open>JavaScript values used by the place pipeline\<close>

text \<open>
  A JavaScript \<^verbatim>\<open>number\<close>: a finite value, or one of the three non-finite values
  that \<^verbatim>\<open>parseFloat\<close> and \<^verbatim>\<open>JSON.parse\<close> can produce. No arithmetic is done on
  coordinates by the code modelled here; they are only tested, copied and stored.
\<close>

datatype jsnum = Finite real | NaN | PosInfinity | NegInfinity

text \<open>Truthiness of a number (\<^verbatim>\<open>if (x)\<close>): \<^verbatim>\<open>0\<close> and \<^verbatim>\<open>NaN\<close> are falsy.\<close>

fun truthyNum :: "jsnum \<Rightarrow> bool" where
  "truthyNum (Finite r) = (r \<noteq> 0)"
| "truthyNum NaN = False"
| "truthyNum PosInfinity = True"
| "truthyNum NegInfinity = True"

text \<open>
  A value as \<^verbatim>\<open>JSON.parse\<close> returns it, or \<^verbatim>\<open>undefined\<close> for a property that is not
  there. Where the source reads an untyped value and only tests and stores it (the
  coordinates of a remote answer), the model keeps the value as it is.
\<close>

datatype jsval =
    JUndefined
  | JNull
  | JBool bool
  | JNum jsnum
  | JStr string
  | JArray "jsval list"
  | JObject "(string \<times> jsval) list"

text \<open>
  Truthiness of a value: \<^verbatim>\<open>undefined\<close>, \<^verbatim>\<open>null\<close>, \<^verbatim>\<open>false\<close>, \<^verbatim>\<open>0\<close>, \<^verbatim>\<open>NaN\<close> and the
  empty string are falsy, every other value is truthy.
\<close>

fun truthy :: "jsval \<Rightarrow> bool" where
  "truthy JUndefined = False"
| "truthy JNull = False"
| "truthy (JBool b) = b"
| "truthy (JNum n) = truthyNum n"
| "truthy (JStr str) = (str \<noteq> [])"
| "truthy (JArray xs) = True"
| "truthy (JObject kvs) = True"

text \<open>An optional string or boolean field (\<open>None\<close> is \<^verbatim>\<open>undefined\<close>) and its truthiness.\<close>

fun truthyStr :: "string option \<Rightarrow> bool" where
  "truthyStr None = False"
| "truthyStr (Some s) = (s \<noteq> [])"

fun truthyBool :: "bool option \<Rightarrow> bool" where
  "truthyBool None = False"
| "truthyBool (Some b) = b"

text \<open>\<^verbatim>\<open>Number.isFinite\<close> and the coordinate ranges of the data model.\<close>

fun isFinite :: "jsnum \<Rightarrow> bool" where
  "isFinite (Finite r) = True"
| "isFinite NaN = False"
| "isFinite PosInfinity = False"
| "isFinite NegInfinity = False"

fun inRange :: "real \<Rightarrow> real \<Rightarrow> jsnum \<Rightarrow> bool" where
  "inRange lo hi (Finite r) = (lo \<le> r \<and> r \<le> hi)"
| "inRange lo hi NaN = False"
| "inRange lo hi PosInfinity = False"
| "inRange lo hi NegInfinity = False"

subsection \<open>Strings\<close>

text \<open>
  A string is the list of its code units, of which the model has the 256 from U+0000 to
  U+00FF. \<open>includesStr\<close> is \<^verbatim>\<open>String.prototype.includes\<close>, which compares code units.

  The built-ins \<^verbatim>\<open>trim\<close> and \<^verbatim>\<open>toLowerCase\<close> are not code of the application: the
  handler below takes them from its surroundings, so that what is proved of it holds
  whatever they do. \<open>trimLatin1\<close> and \<open>toLowerCaseLatin1\<close> are the two built-ins on the
  model's code units: \<^verbatim>\<open>trim\<close> strips U+0009 to U+000D, U+0020 and U+00A0 from both
  ends, \<^verbatim>\<open>toLowerCase\<close> folds A to Z and the upper-case letters U+00C0 to U+00DE (all
  but the multiplication sign U+00D7) by adding 32.
\<close>

definition toLowerChar :: "char \<Rightarrow> char" where
  "toLowerChar c =
     (let n = (of_char c :: nat) in
      if (65 \<le> n \<and> n \<le> 90) \<or> (192 \<le> n \<and> n \<le> 222 \<and> n \<noteq> 215)
      then (case c of Char b0 b1 b2 b3 b4 b5 b6 b7 \<Rightarrow> Char b0 b1 b2 b3 b4 True b6 b7)
      else c)"

definition toLowerCaseLatin1 :: "string \<Rightarrow> string" where
  "toLowerCaseLatin1 str = map toLowerChar str"

definition isSpace :: "char \<Rightarrow> bool" where
  "isSpace c = (let n = (of_char c :: nat) in n = 32 \<or> n = 160 \<or> (9 \<le> n \<and> n \<le> 13))"

definition trimLatin1 :: "string \<Rightarrow> string" where
  "trimLatin1 str = rev (dropWhile isSpace (rev (dropWhile isSpace str)))"

fun startsWith :: "string \<Rightarrow> string \<Rightarrow> bool" where
  "startsWith s [] = True"
| "startsWith [] (d # t) = False"
| "startsWith (c # s) (d # t) = (c = d \<and> startsWith s t)"

fun includesStr :: "string \<Rightarrow> string \<Rightarrow> bool" where
  "includesStr [] t = (t = [])"
| "includesStr (c # s) t = (startsWith (c # s) t \<or> includesStr s t)"

section \<open>Data model (types.ts)\<close>

datatype Category = HiddenGem | TouristTrap

datatype PlaceType = Restaurant | Bar | Cafe | Activity | Other

text \<open>
  \<^verbatim>\<open>Coordinate\<close> declares two numbers; the handlers also store in it what a remote answer
  held, unconverted, so the fields carry any value.
\<close>

record Coordinate =
  lat :: jsval
  lng :: jsval

record Location =
  loc_id :: string
  name :: string
  coordinate :: Coordinate
  description :: string
  category :: Category
  placeType :: PlaceType
  image :: string
  address :: "string option"
  visited :: "bool option"
  rating :: "jsnum option"

text \<open>The React state of \<^verbatim>\<open>App\<close> that the handlers below read and write.\<close>

record app_state =
  locations :: "Location list"
  suggestedLocations :: "Location list"
  selectedLocationId :: "string option"
  searchQuery :: string
  searchResult :: "Location option"
  isSearching :: bool
  isSearchingArea :: bool

section \<open>Initial data (constants.ts)\<close>

definition MOCK_LOCATIONS :: "Location list" where
  "MOCK_LOCATIONS =
   [\<lparr>loc_id = ''1'', name = ''Lazarus Island'',
     coordinate = \<lparr>lat = JNum (Finite 1.226), lng = JNum (Finite 103.855)\<rparr>,
     description = ''A tranquil beach getaway just a short ferry ride from the city. Perfect for picnics and escaping the crowds.'',
     category = HiddenGem, placeType = Activity,
     image = ''https://picsum.photos/seed/lazarus/600/400'',
     address = None, visited = Some False, rating = None\<rparr>,
    \<lparr>loc_id = ''2'', name = ''Merlion Park'',
     coordinate = \<lparr>lat = JNum (Finite 1.2868), lng = JNum (Finite 103.8545)\<rparr>,
     description = ''The iconic symbol of Singapore. Extremely crowded with tourists trying to get the perfect water-spout selfie.'',
     category = TouristTrap, placeType = Activity,
     image = ''https://picsum.photos/seed/merlion/600/400'',
     address = None, visited = Some True, rating = None\<rparr>,
    \<lparr>loc_id = ''3'', name = ''Tiong Bahru Bakery'',
     coordinate = \<lparr>lat = JNum (Finite 1.2874), lng = JNum (Finite 103.8324)\<rparr>,
     description = ''Famous for croissants, but retains a lovely neighborhood vibe despite its popularity. Great coffee.'',
     category = HiddenGem, placeType = Cafe,
     image = ''https://picsum.photos/seed/tiongbahru/600/400'',
     address = None, visited = Some False, rating = None\<rparr>,
    \<lparr>loc_id = ''4'', name = ''Gardens by the Bay'',
     coordinate = \<lparr>lat = JNum (Finite 1.2816), lng = JNum (Finite 103.8636)\<rparr>,
     description = ''Futuristic park featuring Supertree Grove. Spectacular, but expect massive crowds and expensive entry fees for domes.'',
     category = TouristTrap, placeType = Activity,
     image = ''https://picsum.photos/seed/gardens/600/400'',
     address = None, visited = Some False, rating = None\<rparr>,
    \<lparr>loc_id = ''5'', name = ''Haji Lane'',
     coordinate = \<lparr>lat = JNum (Finite 1.3007), lng = JNum (Finite 103.8577)\<rparr>,
     description = ''Narrow lane filled with vibrant street art, indie boutiques, and hip cafes. Lively atmosphere at night.'',
     category = HiddenGem, placeType = Activity,
     image = ''https://picsum.photos/seed/haji/600/400'',
     address = None, visited = Some True, rating = None\<rparr>]"

text \<open>The state of a freshly started application with nothing in local storage.\<close>

definition initialState :: app_state where
  "initialState =
     \<lparr>locations = MOCK_LOCATIONS, suggestedLocations = [], selectedLocationId = None,
      searchQuery = [], searchResult = None, isSearching = False, isSearchingArea = False\<rparr>"

section \<open>Effects\<close>

text \<open>
  Every handler returns the new state together with the list of effects it performed, in
  order: remote requests (tagged by the call site that issues them, with the query string
  before URL encoding), console output and user-visible alerts.
\<close>

record LatLngBounds =
  south :: jsnum
  west :: jsnum
  north :: jsnum
  east :: jsnum

datatype event =
    AiRequest string
  | GeocodeRequest string
  | FallbackRequest string
  | OverpassRequest LatLngBounds
  | ModalGeocodeRequest string
  | ReverseRequest Coordinate
  | ConsoleLog string
  | ConsoleError string
  | Alert string

fun isRemoteCall :: "event \<Rightarrow> bool" where
  "isRemoteCall (AiRequest q) = True"
| "isRemoteCall (GeocodeRequest q) = True"
| "isRemoteCall (FallbackRequest q) = True"
| "isRemoteCall (OverpassRequest b) = True"
| "isRemoteCall (ModalGeocodeRequest q) = True"
| "isRemoteCall (ReverseRequest c) = True"
| "isRemoteCall (ConsoleLog m) = False"
| "isRemoteCall (ConsoleError m) = False"
| "isRemoteCall (Alert m) = False"

fun isDirectoryCall :: "event \<Rightarrow> bool" where
  "isDirectoryCall (GeocodeRequest q) = True"
| "isDirectoryCall (FallbackRequest q) = True"
| "isDirectoryCall (ModalGeocodeRequest q) = True"
| "isDirectoryCall e = False"

fun isAlert :: "event \<Rightarrow> bool" where
  "isAlert (Alert m) = True"
| "isAlert e = False"

text \<open>What a \<^verbatim>\<open>try\<close> block can throw.\<close>

datatype exn = AiCallFailed | NoAiResponse | SyntaxError | TypeError | FetchFailed

section \<open>Area discovery and the dedup filter (handleSearchArea)\<close>

text \<open>
  An element of the Overpass response. The query asks for nodes that have a \<^verbatim>\<open>name\<close>
  tag; \<open>el_id\<close> is the element id as the template literal renders it.
\<close>

record osm_tags =
  tag_name :: string
  tag_amenity :: "string option"
  tag_tourism :: "string option"

record element =
  el_id :: string
  el_lat :: jsval
  el_lon :: jsval
  tags :: osm_tags

text \<open>
  The outcome of the request: \<^verbatim>\<open>fetch\<close> rejects; \<^verbatim>\<open>response.ok\<close> is false (with the
  status); \<^verbatim>\<open>response.json()\<close> rejects; the body has no truthy \<^verbatim>\<open>elements\<close>; or the body
  carries an \<^verbatim>\<open>elements\<close> array.
\<close>

datatype overpass_outcome =
    OverpassRejected
  | OverpassNotOk nat
  | OverpassBadJson
  | OverpassNoElements
  | OverpassElements "element list"

text \<open>The \<^verbatim>\<open>.filter\<close> callback: no saved place has this very name (\<^verbatim>\<open>===\<close>).\<close>

definition notSaved :: "Location list \<Rightarrow> element \<Rightarrow> bool" where
  "notSaved locs el = (\<not> list_ex (\<lambda>l. name l = tag_name (tags el)) locs)"

text \<open>The \<^verbatim>\<open>.map\<close> callback.\<close>

definition areaPlaceType :: "osm_tags \<Rightarrow> PlaceType" where
  "areaPlaceType t =
     (if tag_amenity t = Some ''restaurant'' then Restaurant
      else if tag_amenity t = Some ''cafe'' then Cafe
      else if tag_amenity t = Some ''bar'' \<or> tag_amenity t = Some ''pub'' then Bar
      else if tag_tourism t = Some ''attraction'' \<or> tag_tourism t = Some ''museum'' then Activity
      else Other)"

definition toSuggestion :: "element \<Rightarrow> Location" where
  "toSuggestion el =
     \<lparr>loc_id = ''sugg-'' @ el_id el,
      name = tag_name (tags el),
      coordinate = \<lparr>lat = el_lat el, lng = el_lon el\<rparr>,
      description = ''Found nearby. Click to view details or add to your list.'',
      category = HiddenGem,
      placeType = areaPlaceType (tags el),
      image = ''https://picsum.photos/seed/'' @ el_id el @ ''/600/400'',
      address = None, visited = Some False, rating = None\<rparr>"

definition handleSearchArea ::
  "(LatLngBounds \<Rightarrow> overpass_outcome) \<Rightarrow> LatLngBounds \<Rightarrow> app_state \<Rightarrow> app_state \<times> event list" where
  "handleSearchArea fetchOverpass bounds s =
     (case fetchOverpass bounds of
        OverpassRejected \<Rightarrow>
          (s\<lparr>isSearchingArea := False\<rparr>, [OverpassRequest bounds, ConsoleError ''Overpass API error''])
      | OverpassNotOk status \<Rightarrow>
          (s\<lparr>isSearchingArea := False\<rparr>, [OverpassRequest bounds, ConsoleError ''Overpass API error''])
      | OverpassBadJson \<Rightarrow>
          (s\<lparr>isSearchingArea := False\<rparr>, [OverpassRequest bounds, ConsoleError ''Overpass API error''])
      | OverpassNoElements \<Rightarrow>
          (s\<lparr>isSearchingArea := False\<rparr>, [OverpassRequest bounds])
      | OverpassElements els \<Rightarrow>
          (let newSuggestions = map toSuggestion (filter (notSaved (locations s)) els)
           in (s\<lparr>suggestedLocations := newSuggestions, isSearchingArea := False\<rparr>,
               OverpassRequest bounds #
                 (if length newSuggestions = 0 then [ConsoleLog ''No new places found here.'']
                  else []))))"

section \<open>Saved Set mutation\<close>

text \<open>
  \<^verbatim>\<open>handleToggleVisited\<close>:
  \<^verbatim>\<open>setLocations(prev => prev.map(loc => loc.id === id ? { ...loc, visited: !loc.visited } : loc))\<close>.
\<close>

definition handleToggleVisited :: "string \<Rightarrow> app_state \<Rightarrow> app_state" where
  "handleToggleVisited i s =
     s\<lparr>locations :=
         map (\<lambda>loc. if loc_id loc = i then loc\<lparr>visited := Some (\<not> truthyBool (visited loc))\<rparr> else loc)
             (locations s)\<rparr>"

section \<open>Directory service (Nominatim) responses\<close>

text \<open>
  The first alternative that is truthy, or the last operand: \<^verbatim>\<open>a || b || c || d\<close> on
  optional strings.
\<close>

definition firstTruthy :: "string option list \<Rightarrow> string \<Rightarrow> string" where
  "firstTruthy xs d = (case filter truthyStr xs of Some s # rest \<Rightarrow> s | _ \<Rightarrow> d)"

text \<open>String conversion of an optional string inside a concatenation or a template literal.\<close>

fun toStr :: "string option \<Rightarrow> string" where
  "toStr None = ''undefined''"
| "toStr (Some s) = s"

text \<open>
  \<^verbatim>\<open>s.match(/\d{6}/)\<close> followed by \<^verbatim>\<open>[0]\<close>: the leftmost run of six ASCII digits,
  \<open>None\<close> for \<^verbatim>\<open>null\<close>.
\<close>

definition isDigit :: "char \<Rightarrow> bool" where
  "isDigit c = (let n = (of_char c :: nat) in 48 \<le> n \<and> n \<le> 57)"

fun match_d6 :: "string \<Rightarrow> string option" where
  "match_d6 [] = None"
| "match_d6 (c # s) =
     (if 6 \<le> length (c # s) \<and> list_all isDigit (take 6 (c # s)) then Some (take 6 (c # s))
      else match_d6 s)"

record osm_address =
  amenity :: "string option"
  building :: "string option"
  tourism :: "string option"
  shop :: "string option"
  road :: "string option"

record hit =
  h_lat :: string
  h_lon :: string
  h_name :: "string option"
  h_display_name :: string
  h_class :: "string option"
  h_type :: "string option"

text \<open>
  The outcome of a search request: \<^verbatim>\<open>fetch\<close> rejects; \<^verbatim>\<open>res.json()\<close> rejects; or the
  body is a result array (\<open>Hits []\<close> also stands for any body whose \<^verbatim>\<open>length\<close> is not
  positive).
\<close>

datatype fetch_outcome = FetchRejected | BodyNotJson | Hits "hit list"

section \<open>Add-location form (AddLocationModal.tsx)\<close>

record form_state =
  form_name :: string
  form_description :: string
  form_category :: Category
  form_placeType :: PlaceType
  form_coordinate :: Coordinate
  isAiLoading :: bool
  isGeocoding :: bool

text \<open>
  The form as the opening effect sets it for a map click, where \<^verbatim>\<open>prefillData\<close> is
  \<^verbatim>\<open>{ coordinate }\<close>: empty name and description, the default category and place type,
  the clicked coordinate.
\<close>

definition mapClickForm :: "Coordinate \<Rightarrow> form_state" where
  "mapClickForm c =
     \<lparr>form_name = [], form_description = [], form_category = HiddenGem,
      form_placeType = Other, form_coordinate = c, isAiLoading = False, isGeocoding = False\<rparr>"

text \<open>The query string built at the start of \<^verbatim>\<open>performGeocode\<close>.\<close>

definition modalGeocodeQuery :: "string \<Rightarrow> string option \<Rightarrow> string" where
  "modalGeocodeQuery queryName queryAddress =
     (case queryAddress of
        None \<Rightarrow> queryName @ '' Singapore''
      | Some a \<Rightarrow>
          if a = [] then queryName @ '' Singapore''
          else (case match_d6 a of
                  Some postalMatch \<Rightarrow> postalMatch @ '' Singapore''
                | None \<Rightarrow> if length a > 5 then a @ '' Singapore'' else queryName @ '' Singapore''))"

definition isPoi :: "hit \<Rightarrow> bool" where
  "isPoi d = (h_class d = Some ''amenity'' \<or> h_class d = Some ''tourism'' \<or> h_class d = Some ''shop''
              \<or> h_class d = Some ''leisure'' \<or> h_type d = Some ''restaurant''
              \<or> h_type d = Some ''cafe'' \<or> h_type d = Some ''bar'')"

definition bestMatch :: "string option \<Rightarrow> hit list \<Rightarrow> hit option" where
  "bestMatch queryAddress data =
     (case data of
        [] \<Rightarrow> None
      | d0 # rest \<Rightarrow>
          if truthyStr queryAddress then Some d0
          else (case find isPoi data of Some d \<Rightarrow> Some d | None \<Rightarrow> Some d0))"

definition performGeocode ::
  "(string \<Rightarrow> jsnum) \<Rightarrow> (string \<Rightarrow> fetch_outcome) \<Rightarrow> string \<Rightarrow> string option \<Rightarrow> form_state
     \<Rightarrow> form_state \<times> event list" where
  "performGeocode parseFloat fetchSearch queryName queryAddress f =
     (let q = modalGeocodeQuery queryName queryAddress in
      case fetchSearch q of
        FetchRejected \<Rightarrow>
          (f\<lparr>isGeocoding := False\<rparr>, [ModalGeocodeRequest q, ConsoleError ''Geocode failed''])
      | BodyNotJson \<Rightarrow>
          (f\<lparr>isGeocoding := False\<rparr>, [ModalGeocodeRequest q, ConsoleError ''Geocode failed''])
      | Hits data \<Rightarrow>
          (case bestMatch queryAddress data of
             None \<Rightarrow> (f\<lparr>isGeocoding := False\<rparr>, [ModalGeocodeRequest q])
           | Some m \<Rightarrow>
               (f\<lparr>form_coordinate := \<lparr>lat = JNum (parseFloat (h_lat m)), lng = JNum (parseFloat (h_lon m))\<rparr>,
                  isGeocoding := False\<rparr>,
                [ModalGeocodeRequest q])))"

text \<open>The reverse lookup response: \<^verbatim>\<open>data.name\<close> and \<^verbatim>\<open>data.address\<close>.\<close>

record reverse_data =
  r_name :: "string option"
  r_address :: "osm_address option"

datatype reverse_outcome = ReverseRejected | ReverseBadJson | ReverseNull | ReverseData reverse_data

text \<open>\<^verbatim>\<open>data.address?.field\<close>.\<close>

definition addressField :: "(osm_address \<Rightarrow> string option) \<Rightarrow> reverse_data \<Rightarrow> string option" where
  "addressField field d = (case r_address d of None \<Rightarrow> None | Some a \<Rightarrow> field a)"

definition performReverseGeocode ::
  "(Coordinate \<Rightarrow> reverse_outcome) \<Rightarrow> Coordinate \<Rightarrow> form_state \<Rightarrow> form_state \<times> event list" where
  "performReverseGeocode fetchReverse coord f =
     (case fetchReverse coord of
        ReverseRejected \<Rightarrow>
          (f\<lparr>isGeocoding := False\<rparr>, [ReverseRequest coord, ConsoleError ''Reverse Geocode failed''])
      | ReverseBadJson \<Rightarrow>
          (f\<lparr>isGeocoding := False\<rparr>, [ReverseRequest coord, ConsoleError ''Reverse Geocode failed''])
      | ReverseNull \<Rightarrow> (f\<lparr>isGeocoding := False\<rparr>, [ReverseRequest coord])
      | ReverseData d \<Rightarrow>
          (let placeName =
                 firstTruthy [r_name d, addressField amenity d, addressField building d,
                              addressField tourism d, addressField shop d, addressField road d]
                   ''Unknown Location'';
               f1 = f\<lparr>form_name := placeName\<rparr>;
               f2 = (if addressField amenity d = Some ''restaurant'' then f1\<lparr>form_placeType := Restaurant\<rparr>
                     else if addressField amenity d = Some ''cafe'' then f1\<lparr>form_placeType := Cafe\<rparr>
                     else if addressField amenity d = Some ''bar'' then f1\<lparr>form_placeType := Bar\<rparr>
                     else f1)
           in (f2\<lparr>isGeocoding := False\<rparr>, [ReverseRequest coord])))"

section \<open>Suggestion selection (handleSuggestionSelect)\<close>

record SearchSuggestion =
  place_id :: string
  sg_lat :: string
  sg_lon :: string
  display_name :: string
  sg_name :: "string option"
  sg_type :: "string option"
  sg_class :: "string option"
  sg_address :: "osm_address option"

definition suggestionName :: "SearchSuggestion \<Rightarrow> string" where
  "suggestionName sg =
     (let name0 = takeWhile (\<lambda>c. c \<noteq> CHR '','') (display_name sg) in
      case sg_address sg of
        None \<Rightarrow> name0
      | Some a \<Rightarrow> firstTruthy [amenity a, building a, shop a, tourism a] name0)"

definition suggestionPlaceType :: "SearchSuggestion \<Rightarrow> PlaceType" where
  "suggestionPlaceType sg =
     (if sg_type sg = Some ''restaurant'' then Restaurant
      else if sg_type sg = Some ''cafe'' then Cafe
      else if sg_type sg = Some ''bar'' \<or> sg_type sg = Some ''pub'' then Bar
      else if sg_class sg = Some ''tourism'' then Activity
      else Other)"

definition handleSuggestionSelect ::
  "(string \<Rightarrow> jsnum) \<Rightarrow> SearchSuggestion \<Rightarrow> app_state \<Rightarrow> app_state" where
  "handleSuggestionSelect parseFloat sg s =
     (let newTempLocation =
            \<lparr>loc_id = ''temp-search-result'',
             name = suggestionName sg,
             coordinate = \<lparr>lat = JNum (parseFloat (sg_lat sg)), lng = JNum (parseFloat (sg_lon sg))\<rparr>,
             description = ''Found at: '' @ display_name sg,
             category = HiddenGem,
             placeType = suggestionPlaceType sg,
             image = ''https://picsum.photos/seed/'' @ place_id sg @ ''/600/400'',
             address = Some (display_name sg), visited = Some False, rating = None\<rparr>
      in s\<lparr>searchResult := Some newTempLocation,
           selectedLocationId := Some (loc_id newTempLocation),
           searchQuery := suggestionName sg\<rparr>)"

section \<open>Text search (handleGlobalSearch)\<close>

text \<open>
  The parsed body of the structured-knowledge service, per the response schema sent with
  the request: every field may be absent (\<open>None\<close>), which is how a body that does not
  fit the schema shows up here; \<^verbatim>\<open>coordinates\<close> may also be \<^verbatim>\<open>null\<close>. The two
  coordinates are kept as the values the parse returned (\<open>JUndefined\<close> when absent):
  the handler tests their truthiness and stores them without looking at their type.
\<close>

record ai_coordinates =
  c_lat :: jsval
  c_lng :: jsval

record ai_result =
  ai_name :: "string option"
  ai_address :: "string option"
  ai_coords :: "ai_coordinates option"
  ai_description :: "string option"
  ai_category :: "Category option"
  ai_placeType :: "PlaceType option"

text \<open>
  What the request and the parse of its body come to: \<^verbatim>\<open>generateContent\<close> rejects
  (network failure, quota); \<^verbatim>\<open>response.text\<close> is empty, so the handler throws
  "No AI response"; \<^verbatim>\<open>JSON.parse\<close> throws on a body that is not JSON; the body parses
  to \<^verbatim>\<open>null\<close>, so reading \<^verbatim>\<open>result.coordinates\<close> throws; or the body parses to an
  object.
\<close>

datatype ai_outcome = AiRejected | AiNoText | AiNotJson | AiNull | AiObject ai_result

text \<open>
  The surroundings of one run: the built-ins \<^verbatim>\<open>trim\<close>, \<^verbatim>\<open>toLowerCase\<close>, \<^verbatim>\<open>parseFloat\<close>
  and \<^verbatim>\<open>Date.now()\<close>, the answer of the structured-knowledge service to a query, and the
  answers of the directory service at its two call sites (the geocoding of the service's
  output, and the final fallback on the raw query).
\<close>

record env =
  trim :: "string \<Rightarrow> string"
  toLowerCase :: "string \<Rightarrow> string"
  parseFloat :: "string \<Rightarrow> jsnum"
  dateNow :: string
  generateContent :: "string \<Rightarrow> ai_outcome"
  geocodeFetch :: "string \<Rightarrow> fetch_outcome"
  fallbackFetch :: "string \<Rightarrow> fetch_outcome"

text \<open>The local check: \<^verbatim>\<open>l.name.toLowerCase().includes(searchQuery.toLowerCase())\<close>.\<close>

definition localMatches :: "(string \<Rightarrow> string) \<Rightarrow> string \<Rightarrow> Location \<Rightarrow> bool" where
  "localMatches lower q l = includesStr (lower (name l)) (lower q)"

text \<open>
  The query of the geocoding request and the line logged with it:
  \<^verbatim>\<open>result.address || result.name + " Singapore"\<close>, replaced by the postal code and the
  region when the address holds six digits in a row.
\<close>

definition geocodeQuery :: "ai_result \<Rightarrow> string \<times> event" where
  "geocodeQuery result =
     (let query = (case ai_address result of
                     Some a \<Rightarrow> if a \<noteq> [] then a else toStr (ai_name result) @ '' Singapore''
                   | None \<Rightarrow> toStr (ai_name result) @ '' Singapore'');
          postalMatch = (case ai_address result of Some a \<Rightarrow> match_d6 a | None \<Rightarrow> None)
      in case postalMatch of
           Some code \<Rightarrow>
             (code @ '' Singapore'', ConsoleLog (''Geocoding using postal code: '' @ code @ '' Singapore''))
         | None \<Rightarrow> (query, ConsoleLog (''Geocoding using full address: '' @ query)))"

text \<open>\<^verbatim>\<open>result.coordinates?.lat\<close> and \<^verbatim>\<open>result.coordinates?.lng\<close>.\<close>

definition resultLat :: "ai_result \<Rightarrow> jsval" where
  "resultLat result = (case ai_coords result of None \<Rightarrow> JUndefined | Some c \<Rightarrow> c_lat c)"

definition resultLng :: "ai_result \<Rightarrow> jsval" where
  "resultLng result = (case ai_coords result of None \<Rightarrow> JUndefined | Some c \<Rightarrow> c_lng c)"

text \<open>
  \<^verbatim>\<open>finalLat\<close> and \<^verbatim>\<open>finalLng\<close>: the coordinates of the service when both are truthy,
  otherwise those of the first directory hit for the geocoding query, when there is one.
\<close>

definition resolveCoordinates ::
  "env \<Rightarrow> ai_result \<Rightarrow> event list \<times> (exn + jsval \<times> jsval)" where
  "resolveCoordinates e result =
     (let finalLat = resultLat result;
          finalLng = resultLng result
      in if \<not> truthy finalLat \<or> \<not> truthy finalLng then
           (let (query, logged) = geocodeQuery result in
            case geocodeFetch e query of
              FetchRejected \<Rightarrow> ([logged, GeocodeRequest query], Inl FetchFailed)
            | BodyNotJson \<Rightarrow> ([logged, GeocodeRequest query], Inl SyntaxError)
            | Hits geoData \<Rightarrow>
                (case geoData of
                   [] \<Rightarrow> ([logged, GeocodeRequest query], Inr (finalLat, finalLng))
                 | g # rest \<Rightarrow>
                     ([logged, GeocodeRequest query],
                      Inr (JNum (parseFloat e (h_lat g)), JNum (parseFloat e (h_lon g))))))
         else ([], Inr (finalLat, finalLng)))"

text \<open>The record built from the service's answer and the final coordinates.\<close>

definition aiLocation :: "env \<Rightarrow> string \<Rightarrow> ai_result \<Rightarrow> jsval \<Rightarrow> jsval \<Rightarrow> Location" where
  "aiLocation e q result finalLat finalLng =
     \<lparr>loc_id = ''temp-search-result'',
      name = firstTruthy [ai_name result] q,
      coordinate = \<lparr>lat = finalLat, lng = finalLng\<rparr>,
      description = firstTruthy [ai_description result] (''Found at '' @ toStr (ai_address result)),
      category = (case ai_category result of Some c \<Rightarrow> c | None \<Rightarrow> HiddenGem),
      placeType = (case ai_placeType result of Some t \<Rightarrow> t | None \<Rightarrow> Other),
      image = ''https://picsum.photos/seed/'' @ dateNow e @ ''/600/400'',
      address = ai_address result, visited = Some False, rating = None\<rparr>"

text \<open>The record built from the first hit of the fallback request.\<close>

definition fallbackLocation :: "env \<Rightarrow> string \<Rightarrow> hit \<Rightarrow> Location" where
  "fallbackLocation e q best =
     \<lparr>loc_id = ''temp-search-result'',
      name = firstTruthy [h_name best] q,
      coordinate = \<lparr>lat = JNum (parseFloat e (h_lat best)), lng = JNum (parseFloat e (h_lon best))\<rparr>,
      description = ''Found: '' @ h_display_name best,
      category = HiddenGem,
      placeType = Other,
      image = ''https://picsum.photos/seed/'' @ dateNow e @ ''/600/400'',
      address = None, visited = Some False, rating = None\<rparr>"

definition notFoundMessage :: "string \<Rightarrow> string" where
  "notFoundMessage q =
     ''Could not find a specific location for '' @ [CHR 0x22] @ q @ [CHR 0x22] @ ''.''"

text \<open>The \<^verbatim>\<open>else\<close> branch: the fallback request on the raw query.\<close>

definition fallbackTier :: "env \<Rightarrow> app_state \<Rightarrow> event list \<times> (exn + app_state)" where
  "fallbackTier e s =
     (let q = searchQuery s; fq = q @ '' Singapore'' in
      case fallbackFetch e fq of
        FetchRejected \<Rightarrow> ([FallbackRequest fq], Inl FetchFailed)
      | BodyNotJson \<Rightarrow> ([FallbackRequest fq], Inl SyntaxError)
      | Hits fallbackData \<Rightarrow>
          (case fallbackData of
             [] \<Rightarrow> ([FallbackRequest fq, Alert (notFoundMessage q)], Inr s)
           | best # rest \<Rightarrow>
               ([FallbackRequest fq],
                Inr (s\<lparr>searchResult := Some (fallbackLocation e q best),
                       selectedLocationId := Some ''temp-search-result''\<rparr>))))"

text \<open>The body of the \<^verbatim>\<open>try\<close> block: the effects performed, and the exception or the state.\<close>

definition tryBlock :: "env \<Rightarrow> app_state \<Rightarrow> event list \<times> (exn + app_state)" where
  "tryBlock e s =
     (let q = searchQuery s in
      case generateContent e q of
        AiRejected \<Rightarrow> ([AiRequest q], Inl AiCallFailed)
      | AiNoText \<Rightarrow> ([AiRequest q], Inl NoAiResponse)
      | AiNotJson \<Rightarrow> ([AiRequest q], Inl SyntaxError)
      | AiNull \<Rightarrow> ([AiRequest q], Inl TypeError)
      | AiObject result \<Rightarrow>
          (case resolveCoordinates e result of
             (evs, Inl x) \<Rightarrow> (AiRequest q # evs, Inl x)
           | (evs, Inr (finalLat, finalLng)) \<Rightarrow>
               if truthy finalLat \<and> truthy finalLng then
                 (AiRequest q # evs,
                  Inr (s\<lparr>searchResult := Some (aiLocation e q result finalLat finalLng),
                         selectedLocationId := Some ''temp-search-result''\<rparr>))
               else (case fallbackTier e s of (evs2, r) \<Rightarrow> (AiRequest q # evs @ evs2, r))))"

text \<open>
  The handler: the guard on a blank query, the local check, then the \<^verbatim>\<open>try\<close> block with
  its \<^verbatim>\<open>catch\<close> (error console and alert) and \<^verbatim>\<open>finally\<close> (\<^verbatim>\<open>setIsSearching(false)\<close>).
\<close>

definition handleGlobalSearch :: "env \<Rightarrow> app_state \<Rightarrow> app_state \<times> event list" where
  "handleGlobalSearch e s =
     (if trim e (searchQuery s) = [] then (s, [])
      else (case find (localMatches (toLowerCase e) (searchQuery s)) (locations s) of
              Some localMatch \<Rightarrow>
                (s\<lparr>selectedLocationId := Some (loc_id localMatch), searchResult := None,
                   isSearching := False\<rparr>, [])
            | None \<Rightarrow>
                (case tryBlock e s of
                   (evs, Inr s') \<Rightarrow> (s'\<lparr>isSearching := False\<rparr>, evs)
                 | (evs, Inl x) \<Rightarrow>
                     (s\<lparr>isSearching := False\<rparr>,
                      evs @ [ConsoleError ''Global search error'',
                             Alert ''Search failed. Please try again.'']))))"

section \<open>Example inputs\<close>

definition exampleBounds :: LatLngBounds where
  "exampleBounds =
     \<lparr>south = Finite 1.28, west = Finite 103.85, north = Finite 1.29, east = Finite 103.86\<rparr>"

text \<open>Two discovered elements whose names differ only in letter case.\<close>

definition merlionElements :: "element list" where
  "merlionElements =
     [\<lparr>el_id = ''101'', el_lat = JNum (Finite 1.2868), el_lon = JNum (Finite 103.8545),
       tags = \<lparr>tag_name = ''Merlion Park'', tag_amenity = None, tag_tourism = Some ''attraction''\<rparr>\<rparr>,
      \<lparr>el_id = ''102'', el_lat = JNum (Finite 1.2869), el_lon = JNum (Finite 103.8546),
       tags = \<lparr>tag_name = ''merlion park'', tag_amenity = None, tag_tourism = Some ''attraction''\<rparr>\<rparr>]"

text \<open>
  Three answers of the tag-search service: the two elements above, an empty element list,
  and HTTP status 500.
\<close>

definition overpassMerlion :: "LatLngBounds \<Rightarrow> overpass_outcome" where
  "overpassMerlion b = OverpassElements merlionElements"

definition overpassEmpty :: "LatLngBounds \<Rightarrow> overpass_outcome" where
  "overpassEmpty b = OverpassElements []"

definition overpassServerError :: "LatLngBounds \<Rightarrow> overpass_outcome" where
  "overpassServerError b = OverpassNotOk 500"

text \<open>The state after one successful viewport search on the fresh application.\<close>

definition afterAreaSearch :: app_state where
  "afterAreaSearch = fst (handleSearchArea overpassMerlion exampleBounds initialState)"

text \<open>
  \<^verbatim>\<open>parseFloat\<close> restricted to the decimal strings that the examples pass to it; any
  other string, none of which an example parses, is sent to \<open>NaN\<close>.
\<close>

definition exampleParseFloat :: "string \<Rightarrow> jsnum" where
  "exampleParseFloat str =
     (if str = ''1.3521'' then Finite 1.3521
      else if str = ''103.8198'' then Finite 103.8198
      else if str = ''1.3131'' then Finite 1.3131
      else if str = ''103.9021'' then Finite 103.9021
      else NaN)"

text \<open>
  Surroundings in which every remote service is unreachable. Here and below, the
  strings are in the model's code units, on which \<open>trimLatin1\<close> and
  \<open>toLowerCaseLatin1\<close> are the built-ins.
\<close>

definition offlineEnv :: env where
  "offlineEnv =
     \<lparr>trim = trimLatin1, toLowerCase = toLowerCaseLatin1, parseFloat = exampleParseFloat,
      dateNow = ''1700000000000'',
      generateContent = (\<lambda>q. AiRejected),
      geocodeFetch = (\<lambda>q. FetchRejected),
      fallbackFetch = (\<lambda>q. FetchRejected)\<rparr>"

text \<open>The fresh application with a query typed into the search bar.\<close>

definition withQuery :: "string \<Rightarrow> app_state" where
  "withQuery q = initialState\<lparr>searchQuery := q\<rparr>"

text \<open>A reverse lookup that lands on a pub.\<close>

definition pubReverseData :: reverse_data where
  "pubReverseData =
     \<lparr>r_name = None,
      r_address = Some \<lparr>amenity = Some ''pub'', building = None, tourism = None, shop = None,
                        road = Some ''Joo Chiat Road''\<rparr>\<rparr>"

definition clickedCoordinate :: Coordinate where
  "clickedCoordinate = \<lparr>lat = JNum (Finite 1.3131), lng = JNum (Finite 103.9021)\<rparr>"

text \<open>One directory hit, for the centre of Singapore.\<close>

definition exampleHit :: hit where
  "exampleHit =
     \<lparr>h_lat = ''1.3521'', h_lon = ''103.8198'', h_name = Some ''Singapore'',
      h_display_name = ''Singapore'', h_class = Some ''place'', h_type = Some ''country''\<rparr>"

text \<open>
  Surroundings in which the structured-knowledge service answers with a body that is not
  JSON, while the directory service is reachable and has a hit for every query.
\<close>

definition notJsonEnv :: env where
  "notJsonEnv =
     \<lparr>trim = trimLatin1, toLowerCase = toLowerCaseLatin1, parseFloat = exampleParseFloat,
      dateNow = ''1700000000000'',
      generateContent = (\<lambda>q. AiNotJson),
      geocodeFetch = (\<lambda>q. Hits [exampleHit]),
      fallbackFetch = (\<lambda>q. Hits [exampleHit])\<rparr>"

text \<open>
  Surroundings in which the service answers with a name only: no address, no coordinates.
\<close>

definition nameOnlyResult :: ai_result where
  "nameOnlyResult =
     \<lparr>ai_name = Some ''Bunnies Bakery'', ai_address = None, ai_coords = None,
      ai_description = None, ai_category = None, ai_placeType = None\<rparr>"

definition nameOnlyEnv :: env where
  "nameOnlyEnv =
     \<lparr>trim = trimLatin1, toLowerCase = toLowerCaseLatin1, parseFloat = exampleParseFloat,
      dateNow = ''1700000000000'',
      generateContent = (\<lambda>q. AiObject nameOnlyResult),
      geocodeFetch = (\<lambda>q. Hits [exampleHit]),
      fallbackFetch = (\<lambda>q. Hits [exampleHit])\<rparr>"

text \<open>
  Surroundings in which the service answers with coordinates on the equator: latitude 0,
  a finite number.
\<close>

definition equatorResult :: ai_result where
  "equatorResult =
     \<lparr>ai_name = Some ''Equator Cafe'', ai_address = Some ''1 Equator Road'',
      ai_coords = Some \<lparr>c_lat = JNum (Finite 0), c_lng = JNum (Finite 103.8198)\<rparr>,
      ai_description = Some ''A cafe.'', ai_category = Some HiddenGem, ai_placeType = Some Cafe\<rparr>"

definition equatorEnv :: env where
  "equatorEnv =
     \<lparr>trim = trimLatin1, toLowerCase = toLowerCaseLatin1, parseFloat = exampleParseFloat,
      dateNow = ''1700000000000'',
      generateContent = (\<lambda>q. AiObject equatorResult),
      geocodeFetch = (\<lambda>q. Hits [exampleHit]),
      fallbackFetch = (\<lambda>q. Hits [exampleHit])\<rparr>"

text \<open>Surroundings in which the service answers with coordinates in Singapore.\<close>

definition locatedResult :: ai_result where
  "locatedResult =
     \<lparr>ai_name = Some ''Bunnies Bakery'', ai_address = Some ''376 Joo Chiat Rd, Singapore 427630'',
      ai_coords = Some \<lparr>c_lat = JNum (Finite 1.3131), c_lng = JNum (Finite 103.9021)\<rparr>,
      ai_description = Some ''A bakery.'', ai_category = Some HiddenGem, ai_placeType = Some Cafe\<rparr>"

definition locatedEnv :: env where
  "locatedEnv =
     \<lparr>trim = trimLatin1, toLowerCase = toLowerCaseLatin1, parseFloat = exampleParseFloat,
      dateNow = ''1700000000000'',
      generateContent = (\<lambda>q. AiObject locatedResult),
      geocodeFetch = (\<lambda>q. Hits [exampleHit]),
      fallbackFetch = (\<lambda>q. Hits [exampleHit])\<rparr>"

text \<open>
  Surroundings in which the service answers with an address that ends in a postal code
  and without coordinates, and the directory knows the postal code.
\<close>

definition jooChiatAddress :: string where
  "jooChiatAddress = ''376 Joo Chiat Rd, Singapore 427630''"

definition postalResult :: ai_result where
  "postalResult =
     \<lparr>ai_name = Some ''Bunnies Bakery'', ai_address = Some jooChiatAddress, ai_coords = None,
      ai_description = Some ''A bakery.'', ai_category = Some HiddenGem, ai_placeType = Some Cafe\<rparr>"

definition jooChiatHit :: hit where
  "jooChiatHit =
     \<lparr>h_lat = ''1.3131'', h_lon = ''103.9021'', h_name = None,
      h_display_name = ''376 Joo Chiat Road, Singapore 427630'', h_class = Some ''place'',
      h_type = Some ''postcode''\<rparr>"

definition postalEnv :: env where
  "postalEnv =
     \<lparr>trim = trimLatin1, toLowerCase = toLowerCaseLatin1, parseFloat = exampleParseFloat,
      dateNow = ''1700000000000'',
      generateContent = (\<lambda>q. AiObject postalResult),
      geocodeFetch = (\<lambda>q. if q = ''427630 Singapore'' then Hits [jooChiatHit] else Hits []),
      fallbackFetch = (\<lambda>q. Hits [])\<rparr>"

text \<open>
  Surroundings in which the service knows a name only and the directory has no hit for
  any query.
\<close>

definition emptyDirectoryEnv :: env where
  "emptyDirectoryEnv =
     \<lparr>trim = trimLatin1, toLowerCase = toLowerCaseLatin1, parseFloat = exampleParseFloat,
      dateNow = ''1700000000000'',
      generateContent = (\<lambda>q. AiObject nameOnlyResult),
      geocodeFetch = (\<lambda>q. Hits []),
      fallbackFetch = (\<lambda>q. Hits [])\<rparr>"

text \<open>
  Surroundings in which the service answers with latitude and longitude swapped, and
  surroundings in which the latitude of its answer overflows to \<^verbatim>\<open>Infinity\<close> when parsed.
\<close>

definition swappedResult :: ai_result where
  "swappedResult =
     \<lparr>ai_name = Some ''Bunnies Bakery'', ai_address = Some jooChiatAddress,
      ai_coords = Some \<lparr>c_lat = JNum (Finite 103.9021), c_lng = JNum (Finite 1.3131)\<rparr>,
      ai_description = Some ''A bakery.'', ai_category = Some HiddenGem, ai_placeType = Some Cafe\<rparr>"

definition swappedEnv :: env where
  "swappedEnv =
     \<lparr>trim = trimLatin1, toLowerCase = toLowerCaseLatin1, parseFloat = exampleParseFloat,
      dateNow = ''1700000000000'',
      generateContent = (\<lambda>q. AiObject swappedResult),
      geocodeFetch = (\<lambda>q. Hits [exampleHit]),
      fallbackFetch = (\<lambda>q. Hits [exampleHit])\<rparr>"

definition overflowResult :: ai_result where
  "overflowResult =
     \<lparr>ai_name = Some ''Bunnies Bakery'', ai_address = Some jooChiatAddress,
      ai_coords = Some \<lparr>c_lat = JNum PosInfinity, c_lng = JNum (Finite 103.9021)\<rparr>,
      ai_description = Some ''A bakery.'', ai_category = Some HiddenGem, ai_placeType = Some Cafe\<rparr>"

definition overflowEnv :: env where
  "overflowEnv =
     \<lparr>trim = trimLatin1, toLowerCase = toLowerCaseLatin1, parseFloat = exampleParseFloat,
      dateNow = ''1700000000000'',
      generateContent = (\<lambda>q. AiObject overflowResult),
      geocodeFetch = (\<lambda>q. Hits [exampleHit]),
      fallbackFetch = (\<lambda>q. Hits [exampleHit])\<rparr>"

text \<open>
  Surroundings in which the service knows a name only, the geocoding request has no hit
  and the fallback request has one.
\<close>

definition fallbackHitEnv :: env where
  "fallbackHitEnv =
     \<lparr>trim = trimLatin1, toLowerCase = toLowerCaseLatin1, parseFloat = exampleParseFloat,
      dateNow = ''1700000000000'',
      generateContent = (\<lambda>q. AiObject nameOnlyResult),
      geocodeFetch = (\<lambda>q. Hits []),
      fallbackFetch = (\<lambda>q. Hits [exampleHit])\<rparr>"

text \<open>An address in which a telephone number comes before the postal code.\<close>

definition phoneAddress :: string where
  "phoneAddress = ''Tel 61234567, 376 Joo Chiat Rd, Singapore 427630''"

text \<open>
  Surroundings in which the service answers with the address above and without
  coordinates, and the directory knows the postal code 427630 and nothing else.
\<close>

definition phoneResult :: ai_result where
  "phoneResult =
     \<lparr>ai_name = Some ''Bunnies Bakery'', ai_address = Some phoneAddress, ai_coords = None,
      ai_description = Some ''A bakery.'', ai_category = Some HiddenGem, ai_placeType = Some Cafe\<rparr>"

definition phoneEnv :: env where
  "phoneEnv =
     \<lparr>trim = trimLatin1, toLowerCase = toLowerCaseLatin1, parseFloat = exampleParseFloat,
      dateNow = ''1700000000000'',
      generateContent = (\<lambda>q. AiObject phoneResult),
      geocodeFetch = (\<lambda>q. if q = ''427630 Singapore'' then Hits [jooChiatHit] else Hits []),
      fallbackFetch = (\<lambda>q. Hits [])\<rparr>"

text \<open>
  Surroundings in which the call to the structured-knowledge service is rejected and
  the directory has no hit for any query.
\<close>

definition rejectedEmptyEnv :: env where
  "rejectedEmptyEnv =
     \<lparr>trim = trimLatin1, toLowerCase = toLowerCaseLatin1, parseFloat = exampleParseFloat,
      dateNow = ''1700000000000'',
      generateContent = (\<lambda>q. AiRejected),
      geocodeFetch = (\<lambda>q. Hits []),
      fallbackFetch = (\<lambda>q. Hits [])\<rparr>"

section \<open>Properties\<close>

subsection \<open>Toggle-visited frame\<close>

lemma toggle_nth:
  "k < length (locations s) \<Longrightarrow>
   locations (handleToggleVisited i s) ! k =
     (if loc_id (locations s ! k) = i
      then (locations s ! k)\<lparr>visited := Some (\<not> truthyBool (visited (locations s ! k)))\<rparr>
      else locations s ! k)"
  by (simp add: handleToggleVisited_def)

lemma toggle_absent:
  "i \<notin> loc_id ` set xs \<Longrightarrow>
   map (\<lambda>loc. if loc_id loc = i then loc\<lparr>visited := Some (\<not> truthyBool (visited loc))\<rparr> else loc) xs = xs"
  by (induction xs) auto

text \<open>
  C10. For every Saved Set and every id, toggle-visited keeps the length and order of the
  Saved Set; a place whose id matches keeps every field other than \<open>visited\<close> (putting the
  old \<open>visited\<close> back gives the old place) and its \<open>visited\<close> becomes the negation of the old
  one; every place with another id is unchanged; if no place has the id, the Saved Set is
  unchanged entirely. No other part of the application state changes.
\<close>

theorem toggle_visited_frame:
  "length (locations (handleToggleVisited i s)) = length (locations s)
   \<and> (\<forall>k < length (locations s).
         loc_id (locations s ! k) = i \<longrightarrow>
           (locations (handleToggleVisited i s) ! k)\<lparr>visited := visited (locations s ! k)\<rparr>
             = locations s ! k
           \<and> visited (locations (handleToggleVisited i s) ! k)
             = Some (\<not> truthyBool (visited (locations s ! k))))
   \<and> (\<forall>k < length (locations s).
         loc_id (locations s ! k) \<noteq> i \<longrightarrow>
           locations (handleToggleVisited i s) ! k = locations s ! k)
   \<and> (i \<notin> loc_id ` set (locations s) \<longrightarrow> handleToggleVisited i s = s)
   \<and> (handleToggleVisited i s)\<lparr>locations := locations s\<rparr> = s"
proof -
  have len: "length (locations (handleToggleVisited i s)) = length (locations s)"
    by (simp add: handleToggleVisited_def)
  have hit: "\<forall>k < length (locations s).
         loc_id (locations s ! k) = i \<longrightarrow>
           (locations (handleToggleVisited i s) ! k)\<lparr>visited := visited (locations s ! k)\<rparr>
             = locations s ! k
           \<and> visited (locations (handleToggleVisited i s) ! k)
             = Some (\<not> truthyBool (visited (locations s ! k)))"
    by (simp add: toggle_nth)
  have miss: "\<forall>k < length (locations s).
         loc_id (locations s ! k) \<noteq> i \<longrightarrow>
           locations (handleToggleVisited i s) ! k = locations s ! k"
    by (simp add: toggle_nth)
  have absent: "i \<notin> loc_id ` set (locations s) \<longrightarrow> handleToggleVisited i s = s"
    by (simp add: handleToggleVisited_def toggle_absent)
  have rest: "(handleToggleVisited i s)\<lparr>locations := locations s\<rparr> = s"
    by (simp add: handleToggleVisited_def)
  from len hit miss absent rest show ?thesis by blast
qed

theorem toggle_visited_frame_witness:
  "(1::nat) < length (locations initialState)
   \<and> loc_id (locations initialState ! 1) = ''2''
   \<and> visited (locations initialState ! 1) = Some True
   \<and> visited (locations (handleToggleVisited ''2'' initialState) ! 1) = Some False
   \<and> loc_id (locations initialState ! 0) \<noteq> ''2''
   \<and> locations (handleToggleVisited ''2'' initialState) ! 0 = locations initialState ! 0
   \<and> ''9'' \<notin> loc_id ` set (locations initialState)
   \<and> handleToggleVisited ''9'' initialState = initialState"
proof -
  have h0: "(0::nat) < length (locations initialState)"
    by (simp add: initialState_def MOCK_LOCATIONS_def)
  have h1: "(1::nat) < length (locations initialState)"
    by (simp add: initialState_def MOCK_LOCATIONS_def)
  have h2: "loc_id (locations initialState ! 1) = ''2''"
    by (simp add: initialState_def MOCK_LOCATIONS_def)
  have h3: "loc_id (locations initialState ! 0) \<noteq> ''2''"
    by (simp add: initialState_def MOCK_LOCATIONS_def)
  have h4: "''9'' \<notin> loc_id ` set (locations initialState)"
    by (simp add: initialState_def MOCK_LOCATIONS_def)
  have v: "visited (locations initialState ! 1) = Some True"
    by (simp add: initialState_def MOCK_LOCATIONS_def)
  note T = toggle_visited_frame [of "''2''" initialState]
  from T h1 h2
  have "visited (locations (handleToggleVisited ''2'' initialState) ! 1)
          = Some (\<not> truthyBool (visited (locations initialState ! 1)))"
    by blast
  with v have c1: "visited (locations (handleToggleVisited ''2'' initialState) ! 1) = Some False"
    by simp
  from T h0 h3
  have c2: "locations (handleToggleVisited ''2'' initialState) ! 0 = locations initialState ! 0"
    by blast
  from toggle_visited_frame [of "''9''" initialState] h4
  have c3: "handleToggleVisited ''9'' initialState = initialState"
    by blast
  from h1 h2 v c1 h3 c2 h4 c3 show ?thesis by blast
qed

subsection \<open>Dedup filter\<close>

lemma notSaved_iff: "notSaved locs el \<longleftrightarrow> tag_name (tags el) \<notin> name ` set locs"
  by (auto simp: notSaved_def list_ex_iff image_iff)

lemma area_names:
  "map name (map toSuggestion (filter (notSaved locs) els))
     = filter (\<lambda>n. n \<notin> name ` set locs) (map (\<lambda>el. tag_name (tags el)) els)"
  by (induction els) (simp_all add: notSaved_iff toSuggestion_def)

lemma initial_names:
  "map name (locations initialState) =
     [''Lazarus Island'', ''Merlion Park'', ''Tiong Bahru Bakery'', ''Gardens by the Bay'',
      ''Haji Lane'']"
  by (simp add: initialState_def MOCK_LOCATIONS_def)

text \<open>
  C7. When the tag-search service answers with a list of elements, the Suggested Set is
  the image, in order, of exactly those elements whose name is not equal, as a string and
  therefore case-sensitively, to the name of any place of the Saved Set: an element is
  excluded if and only if some saved place has that very name.
\<close>

theorem dedup_exact_name:
  assumes "fetchOverpass b = OverpassElements els"
  shows "suggestedLocations (fst (handleSearchArea fetchOverpass b s))
           = map toSuggestion (filter (\<lambda>el. tag_name (tags el) \<notin> name ` set (locations s)) els)
         \<and> map name (suggestedLocations (fst (handleSearchArea fetchOverpass b s)))
           = filter (\<lambda>n. n \<notin> name ` set (locations s)) (map (\<lambda>el. tag_name (tags el)) els)"
proof -
  have eq: "filter (notSaved (locations s)) els
              = filter (\<lambda>el. tag_name (tags el) \<notin> name ` set (locations s)) els"
    by (rule filter_cong) (simp_all add: notSaved_iff)
  have sug: "suggestedLocations (fst (handleSearchArea fetchOverpass b s))
               = map toSuggestion (filter (notSaved (locations s)) els)"
    using assms by (simp add: handleSearchArea_def Let_def)
  have "map name (map toSuggestion (filter (\<lambda>el. tag_name (tags el) \<notin> name ` set (locations s)) els))
          = filter (\<lambda>n. n \<notin> name ` set (locations s)) (map (\<lambda>el. tag_name (tags el)) els)"
    by (induction els) (simp_all add: toSuggestion_def)
  with sug eq show ?thesis by simp
qed

text \<open>
  With "Merlion Park" saved, the element named "Merlion Park" is excluded and the element
  named "merlion park" is kept.
\<close>

theorem dedup_exact_name_witness:
  "map name (suggestedLocations
      (fst (handleSearchArea overpassMerlion exampleBounds initialState)))
     = [''merlion park'']"
proof -
  have st: "name ` set (locations initialState) = set (map name (locations initialState))"
    by simp
  have f: "filter (\<lambda>n. n \<notin> name ` set (locations initialState))
          (map (\<lambda>el. tag_name (tags el)) merlionElements) = [''merlion park'']"
    unfolding st initial_names by (simp add: merlionElements_def)
  have "map name (suggestedLocations
      (fst (handleSearchArea overpassMerlion exampleBounds initialState)))
     = filter (\<lambda>n. n \<notin> name ` set (locations initialState))
          (map (\<lambda>el. tag_name (tags el)) merlionElements)"
  proof -
    have fe: "overpassMerlion exampleBounds = OverpassElements merlionElements"
      by (simp add: overpassMerlion_def)
    from dedup_exact_name [of overpassMerlion exampleBounds merlionElements initialState] fe
    show ?thesis by blast
  qed
  with f show ?thesis by (simp only:)
qed

subsection \<open>Area search failures\<close>

lemma afterAreaSearch_names: "map name (suggestedLocations afterAreaSearch) = [''merlion park'']"
proof -
  have st: "name ` set (locations initialState) = set (map name (locations initialState))"
    by simp
  have "map name (suggestedLocations afterAreaSearch)
          = filter (\<lambda>n. n \<notin> name ` set (locations initialState))
              (map (\<lambda>el. tag_name (tags el)) merlionElements)"
    unfolding afterAreaSearch_def
    by (simp add: handleSearchArea_def overpassMerlion_def Let_def area_names del: map_map)
  also have "\<dots> = [''merlion park'']"
    unfolding st initial_names by (simp add: merlionElements_def)
  finally show ?thesis .
qed

text \<open>
  C8 as stated fails: after a successful viewport search has filled the Suggested Set, a
  second search answered with HTTP status 500 leaves the Suggested Set as it was, not
  empty.
\<close>

theorem area_search_non2xx_counterexample:
  "suggestedLocations (fst (handleSearchArea overpassServerError exampleBounds afterAreaSearch))
     \<noteq> []"
proof -
  have "suggestedLocations (fst (handleSearchArea overpassServerError exampleBounds afterAreaSearch))
          = suggestedLocations afterAreaSearch"
    by (simp add: handleSearchArea_def overpassServerError_def)
  moreover have "suggestedLocations afterAreaSearch \<noteq> []"
    using afterAreaSearch_names by auto
  ultimately show ?thesis by simp
qed

text \<open>
  C8, amended. A viewport search whose response is non-2xx leaves the Suggested Set
  unchanged and logs the failure on the error console; a search whose response carries an
  empty element list sets the Suggested Set to empty and logs that no new places were
  found.
\<close>

theorem area_search_failure:
  "(fetchOverpass b = OverpassNotOk status \<longrightarrow>
      suggestedLocations (fst (handleSearchArea fetchOverpass b s)) = suggestedLocations s
      \<and> snd (handleSearchArea fetchOverpass b s)
          = [OverpassRequest b, ConsoleError ''Overpass API error''])
   \<and> (fetchOverpass b = OverpassElements [] \<longrightarrow>
      suggestedLocations (fst (handleSearchArea fetchOverpass b s)) = []
      \<and> snd (handleSearchArea fetchOverpass b s)
          = [OverpassRequest b, ConsoleLog ''No new places found here.''])"
  by (simp add: handleSearchArea_def)

theorem area_search_failure_witness:
  "suggestedLocations (fst (handleSearchArea overpassServerError exampleBounds afterAreaSearch))
      = suggestedLocations afterAreaSearch
   \<and> snd (handleSearchArea overpassServerError exampleBounds afterAreaSearch)
      = [OverpassRequest exampleBounds, ConsoleError ''Overpass API error'']
   \<and> suggestedLocations (fst (handleSearchArea overpassEmpty exampleBounds afterAreaSearch))
      = []
   \<and> snd (handleSearchArea overpassEmpty exampleBounds afterAreaSearch)
      = [OverpassRequest exampleBounds, ConsoleLog ''No new places found here.'']"
proof -
  have e1: "overpassServerError exampleBounds = OverpassNotOk 500"
    by (simp add: overpassServerError_def)
  have e2: "overpassEmpty exampleBounds = OverpassElements []"
    by (simp add: overpassEmpty_def)
  from area_search_failure [of overpassServerError exampleBounds 500 afterAreaSearch] e1
       area_search_failure [of overpassEmpty exampleBounds 500 afterAreaSearch] e2
  show ?thesis by blast
qed

subsection \<open>Strings\<close>

lemma startsWith_iff: "startsWith s t \<longleftrightarrow> (\<exists>post. s = t @ post)"
  by (induction s t rule: startsWith.induct) auto

lemma includesStr_iff: "includesStr s t \<longleftrightarrow> (\<exists>pre post. s = pre @ t @ post)"
proof (induction s)
  case Nil
  then show ?case by simp
next
  case (Cons c s)
  show ?case
  proof
    assume "includesStr (c # s) t"
    then consider "startsWith (c # s) t" | "includesStr s t" by auto
    then show "\<exists>pre post. c # s = pre @ t @ post"
    proof cases
      case 1
      then obtain post where "c # s = t @ post" by (auto simp: startsWith_iff)
      then have "c # s = [] @ t @ post" by simp
      then show ?thesis by blast
    next
      case 2
      then obtain pre post where "s = pre @ t @ post" using Cons.IH by blast
      then have "c # s = (c # pre) @ t @ post" by simp
      then show ?thesis by blast
    qed
  next
    assume "\<exists>pre post. c # s = pre @ t @ post"
    then obtain pre post where eq: "c # s = pre @ t @ post" by blast
    show "includesStr (c # s) t"
    proof (cases pre)
      case Nil
      with eq have "startsWith (c # s) t" by (auto simp: startsWith_iff)
      then show ?thesis by simp
    next
      case (Cons d pre')
      with eq have "s = pre' @ t @ post" by simp
      then have "includesStr s t" using Cons.IH by blast
      then show ?thesis by simp
    qed
  qed
qed

subsection \<open>Reverse geocoding\<close>

text \<open>
  C9. At a reverse lookup whose amenity tag is "pub", on the form as a map click opens
  it, the inferred place type stays \<open>Other\<close>: \<^verbatim>\<open>performReverseGeocode\<close> tests for
  "restaurant", "cafe" and "bar" only, while the area search and the suggestion
  selection map "pub" to \<open>Bar\<close>.
\<close>

theorem reverse_geocode_pub_is_other:
  "form_placeType
     (fst (performReverseGeocode (\<lambda>c. ReverseData pubReverseData) clickedCoordinate
             (mapClickForm clickedCoordinate))) = Other
   \<and> form_name
     (fst (performReverseGeocode (\<lambda>c. ReverseData pubReverseData) clickedCoordinate
             (mapClickForm clickedCoordinate))) = ''pub''
   \<and> areaPlaceType \<lparr>tag_name = ''The Cider Pit'', tag_amenity = Some ''pub'', tag_tourism = None\<rparr> = Bar"
  by code_simp

subsection \<open>Local match\<close>

lemma localMatches_iff:
  "localMatches lower q l \<longleftrightarrow> (\<exists>pre post. lower (name l) = pre @ lower q @ post)"
  by (simp add: localMatches_def includesStr_iff)

lemma local_hit:
  assumes "trim e (searchQuery s) \<noteq> []"
    and "find (localMatches (toLowerCase e) (searchQuery s)) (locations s) = Some m"
  shows "handleGlobalSearch e s =
           (s\<lparr>selectedLocationId := Some (loc_id m), searchResult := None, isSearching := False\<rparr>, [])"
  using assms by (simp add: handleGlobalSearch_def)

text \<open>
  C2 as stated fails: the query "Tiong Bahru Bakery " ends in a space; it is not empty,
  and the normalized (trimmed) query is contained in the saved name "Tiong Bahru
  Bakery". The handler trims the query for its guard only and compares the query as
  typed: it finds no saved place, selects nothing and calls the structured-knowledge
  service.
\<close>

theorem local_match_untrimmed_counterexample:
  "trim offlineEnv (searchQuery (withQuery ''Tiong Bahru Bakery '')) = ''Tiong Bahru Bakery''
   \<and> name (MOCK_LOCATIONS ! 2) = ''Tiong Bahru Bakery''
   \<and> MOCK_LOCATIONS ! 2 \<in> set (locations (withQuery ''Tiong Bahru Bakery ''))
   \<and> includesStr (toLowerCase offlineEnv (name (MOCK_LOCATIONS ! 2)))
        (toLowerCase offlineEnv (trim offlineEnv (searchQuery (withQuery ''Tiong Bahru Bakery ''))))
   \<and> filter isRemoteCall (snd (handleGlobalSearch offlineEnv (withQuery ''Tiong Bahru Bakery '')))
       = [AiRequest ''Tiong Bahru Bakery '']
   \<and> selectedLocationId (fst (handleGlobalSearch offlineEnv (withQuery ''Tiong Bahru Bakery ''))) = None"
proof -
  have a: "trim offlineEnv (searchQuery (withQuery ''Tiong Bahru Bakery '')) = ''Tiong Bahru Bakery''"
    by code_simp
  have b: "name (MOCK_LOCATIONS ! 2) = ''Tiong Bahru Bakery''"
    by (simp add: MOCK_LOCATIONS_def)
  have c: "MOCK_LOCATIONS ! 2 \<in> set (locations (withQuery ''Tiong Bahru Bakery ''))"
    by (simp add: withQuery_def initialState_def MOCK_LOCATIONS_def)
  have d: "includesStr (toLowerCase offlineEnv (name (MOCK_LOCATIONS ! 2)))
        (toLowerCase offlineEnv (trim offlineEnv (searchQuery (withQuery ''Tiong Bahru Bakery ''))))"
    by code_simp
  have f: "filter isRemoteCall (snd (handleGlobalSearch offlineEnv (withQuery ''Tiong Bahru Bakery '')))
       = [AiRequest ''Tiong Bahru Bakery '']"
    by code_simp
  have g: "selectedLocationId (fst (handleGlobalSearch offlineEnv (withQuery ''Tiong Bahru Bakery ''))) = None"
    by code_simp
  from a b c d f g show ?thesis by blast
qed

text \<open>
  C2, amended. Whatever the built-ins \<^verbatim>\<open>trim\<close> and \<^verbatim>\<open>toLowerCase\<close> do: for every query
  that is not empty after trimming and every Saved Set, if the lower-cased name of some
  saved place contains the lower-cased query as typed (not trimmed) as a substring, the
  handler selects the first such place in Saved Set order, clears the temporary search
  result and performs no effect at all, so no remote call: every later tier is skipped.
\<close>

theorem local_match_first:
  assumes "trim e (searchQuery s) \<noteq> []"
    and "l \<in> set (locations s)"
    and "toLowerCase e (name l) = pre @ toLowerCase e (searchQuery s) @ post"
  shows "\<exists>i < length (locations s).
           localMatches (toLowerCase e) (searchQuery s) (locations s ! i)
           \<and> (\<forall>j < i. \<not> localMatches (toLowerCase e) (searchQuery s) (locations s ! j))
           \<and> handleGlobalSearch e s =
               (s\<lparr>selectedLocationId := Some (loc_id (locations s ! i)), searchResult := None,
                  isSearching := False\<rparr>, [])
           \<and> filter isRemoteCall (snd (handleGlobalSearch e s)) = []"
proof -
  have "localMatches (toLowerCase e) (searchQuery s) l"
    using assms(3) by (auto simp: localMatches_iff)
  with assms(2) have "find (localMatches (toLowerCase e) (searchQuery s)) (locations s) \<noteq> None"
    by (auto simp: find_None_iff)
  then obtain m where m: "find (localMatches (toLowerCase e) (searchQuery s)) (locations s) = Some m"
    by blast
  then obtain i where i: "i < length (locations s)"
      "localMatches (toLowerCase e) (searchQuery s) (locations s ! i)"
      "m = locations s ! i"
      "\<forall>j < i. \<not> localMatches (toLowerCase e) (searchQuery s) (locations s ! j)"
    by (auto simp: find_Some_iff)
  from local_hit [OF assms(1) m] i show ?thesis by auto
qed

text \<open>
  The query "BAHRU" on the fresh application: the first saved place whose lower-cased
  name contains "bahru" is the third, "Tiong Bahru Bakery", with id 3.
\<close>

theorem local_match_first_witness:
  "trim offlineEnv (searchQuery (withQuery ''BAHRU'')) \<noteq> []
   \<and> MOCK_LOCATIONS ! 2 \<in> set (locations (withQuery ''BAHRU''))
   \<and> toLowerCase offlineEnv (name (MOCK_LOCATIONS ! 2))
       = ''tiong '' @ toLowerCase offlineEnv (searchQuery (withQuery ''BAHRU'')) @ '' bakery''
   \<and> snd (handleGlobalSearch offlineEnv (withQuery ''BAHRU'')) = []
   \<and> selectedLocationId (fst (handleGlobalSearch offlineEnv (withQuery ''BAHRU''))) = Some ''3''"
proof -
  let ?s = "withQuery ''BAHRU''"
  have a: "trim offlineEnv (searchQuery ?s) \<noteq> []"
    by code_simp
  have b: "MOCK_LOCATIONS ! 2 \<in> set (locations ?s)"
    by (simp add: withQuery_def initialState_def MOCK_LOCATIONS_def)
  have c: "toLowerCase offlineEnv (name (MOCK_LOCATIONS ! 2))
             = ''tiong '' @ toLowerCase offlineEnv (searchQuery ?s) @ '' bakery''"
    by code_simp
  from local_match_first [OF a b c]
  have d: "snd (handleGlobalSearch offlineEnv ?s) = []"
    by auto
  have f: "find (localMatches (toLowerCase offlineEnv) (searchQuery ?s)) (locations ?s)
             = Some (MOCK_LOCATIONS ! 2)"
    by code_simp
  have g: "selectedLocationId (fst (handleGlobalSearch offlineEnv ?s)) = Some ''3''"
    unfolding local_hit [OF a f] by code_simp
  from a b c d g show ?thesis by blast
qed

subsection \<open>The remote tiers\<close>

lemma past_local:
  assumes "trim e (searchQuery s) \<noteq> []"
    and "find (localMatches (toLowerCase e) (searchQuery s)) (locations s) = None"
  shows "handleGlobalSearch e s =
           (case tryBlock e s of
              (evs, Inr s') \<Rightarrow> (s'\<lparr>isSearching := False\<rparr>, evs)
            | (evs, Inl x) \<Rightarrow>
                (s\<lparr>isSearching := False\<rparr>,
                 evs @ [ConsoleError ''Global search error'',
                        Alert ''Search failed. Please try again.'']))"
  using assms by (simp add: handleGlobalSearch_def)

lemma try_throws:
  assumes "generateContent e (searchQuery s) \<in> {AiRejected, AiNoText, AiNotJson, AiNull}"
  shows "\<exists>x. tryBlock e s = ([AiRequest (searchQuery s)], Inl x)"
  using assms by (auto simp: tryBlock_def)

lemma resolve_direct:
  assumes "truthy (resultLat r)" and "truthy (resultLng r)"
  shows "resolveCoordinates e r = ([], Inr (resultLat r, resultLng r))"
  using assms by (simp add: resolveCoordinates_def)

lemma resolve_geocodes:
  assumes "\<not> (truthy (resultLat r) \<and> truthy (resultLng r))"
  shows "\<exists>res. resolveCoordinates e r =
           ([snd (geocodeQuery r), GeocodeRequest (fst (geocodeQuery r))], res)"
  using assms
  by (auto simp: resolveCoordinates_def Let_def split_beta split: fetch_outcome.splits list.splits)

lemma try_after_resolve:
  assumes "generateContent e (searchQuery s) = AiObject r"
    and "resolveCoordinates e r = (evs, res)"
  shows "\<exists>rest out. tryBlock e s = (AiRequest (searchQuery s) # evs @ rest, out)"
  using assms
  by (auto simp: tryBlock_def Let_def split: sum.splits option.splits prod.splits)

lemma geocodeQuery_no_address:
  assumes "\<not> truthyStr (ai_address r)"
  shows "geocodeQuery r =
           (toStr (ai_name r) @ '' Singapore'',
            ConsoleLog (''Geocoding using full address: '' @ toStr (ai_name r) @ '' Singapore''))"
  using assms by (cases "ai_address r") (auto simp: geocodeQuery_def Let_def)

text \<open>
  C3 as stated fails: when the body of the structured-knowledge service is not JSON, the
  handler issues no directory request at all, although the directory service would have
  answered; it logs the error, raises the "Search failed" alert and stores no result.
\<close>

theorem soft_failure_counterexample:
  "snd (handleGlobalSearch notJsonEnv (withQuery ''Bunnies''))
     = [AiRequest ''Bunnies'', ConsoleError ''Global search error'',
        Alert ''Search failed. Please try again.'']
   \<and> filter isDirectoryCall (snd (handleGlobalSearch notJsonEnv (withQuery ''Bunnies''))) = []
   \<and> searchResult (fst (handleGlobalSearch notJsonEnv (withQuery ''Bunnies''))) = None"
  by code_simp

text \<open>
  C3, amended. For a query that passes the guard and has no local match: when the
  structured-knowledge service fails with a network error or returns an empty body, a body
  that is not JSON or the body \<^verbatim>\<open>null\<close>, the handler returns normally with the state
  unchanged (no candidate), having made no directory request, logged the error and raised
  one "Search failed. Please try again." alert. When the body parses to an object without
  a truthy coordinate pair and without an address, the handler proceeds to the
  geocoding-directory request with the name followed by " Singapore" as the query.
\<close>

theorem soft_failure_behaviour:
  assumes "trim e (searchQuery s) \<noteq> []"
    and "find (localMatches (toLowerCase e) (searchQuery s)) (locations s) = None"
  shows "(generateContent e (searchQuery s) \<in> {AiRejected, AiNoText, AiNotJson, AiNull} \<longrightarrow>
            handleGlobalSearch e s =
              (s\<lparr>isSearching := False\<rparr>,
               [AiRequest (searchQuery s), ConsoleError ''Global search error'',
                Alert ''Search failed. Please try again.'']))
         \<and> (generateContent e (searchQuery s) = AiObject r
              \<and> \<not> (truthy (resultLat r) \<and> truthy (resultLng r))
              \<and> \<not> truthyStr (ai_address r) \<longrightarrow>
            (\<exists>rest. snd (handleGlobalSearch e s) =
               AiRequest (searchQuery s)
               # ConsoleLog (''Geocoding using full address: '' @ toStr (ai_name r) @ '' Singapore'')
               # GeocodeRequest (toStr (ai_name r) @ '' Singapore'') # rest))"
proof (intro conjI impI)
  assume "generateContent e (searchQuery s) \<in> {AiRejected, AiNoText, AiNotJson, AiNull}"
  then obtain x where "tryBlock e s = ([AiRequest (searchQuery s)], Inl x)"
    using try_throws by blast
  then show "handleGlobalSearch e s =
              (s\<lparr>isSearching := False\<rparr>,
               [AiRequest (searchQuery s), ConsoleError ''Global search error'',
                Alert ''Search failed. Please try again.''])"
    by (simp add: past_local [OF assms])
next
  assume h: "generateContent e (searchQuery s) = AiObject r
              \<and> \<not> (truthy (resultLat r) \<and> truthy (resultLng r))
              \<and> \<not> truthyStr (ai_address r)"
  then obtain res where
    "resolveCoordinates e r = ([snd (geocodeQuery r), GeocodeRequest (fst (geocodeQuery r))], res)"
    using resolve_geocodes by blast
  with h obtain rest out where
    t: "tryBlock e s =
          (AiRequest (searchQuery s)
           # [snd (geocodeQuery r), GeocodeRequest (fst (geocodeQuery r))] @ rest, out)"
    using try_after_resolve by blast
  have q: "geocodeQuery r =
           (toStr (ai_name r) @ '' Singapore'',
            ConsoleLog (''Geocoding using full address: '' @ toStr (ai_name r) @ '' Singapore''))"
    using h geocodeQuery_no_address by blast
  show "\<exists>rest. snd (handleGlobalSearch e s) =
               AiRequest (searchQuery s)
               # ConsoleLog (''Geocoding using full address: '' @ toStr (ai_name r) @ '' Singapore'')
               # GeocodeRequest (toStr (ai_name r) @ '' Singapore'') # rest"
    unfolding past_local [OF assms] t q by (cases out) auto
qed

theorem soft_failure_behaviour_witness:
  "trim notJsonEnv (searchQuery (withQuery ''Bunnies'')) \<noteq> []
   \<and> find (localMatches (toLowerCase notJsonEnv) (searchQuery (withQuery ''Bunnies'')))
        (locations (withQuery ''Bunnies'')) = None
   \<and> generateContent notJsonEnv (searchQuery (withQuery ''Bunnies''))
        \<in> {AiRejected, AiNoText, AiNotJson, AiNull}
   \<and> handleGlobalSearch notJsonEnv (withQuery ''Bunnies'') =
        ((withQuery ''Bunnies'')\<lparr>isSearching := False\<rparr>,
         [AiRequest (searchQuery (withQuery ''Bunnies'')), ConsoleError ''Global search error'',
          Alert ''Search failed. Please try again.''])
   \<and> trim nameOnlyEnv (searchQuery (withQuery ''Bunnies'')) \<noteq> []
   \<and> find (localMatches (toLowerCase nameOnlyEnv) (searchQuery (withQuery ''Bunnies'')))
        (locations (withQuery ''Bunnies'')) = None
   \<and> generateContent nameOnlyEnv (searchQuery (withQuery ''Bunnies'')) = AiObject nameOnlyResult
   \<and> \<not> (truthy (resultLat nameOnlyResult) \<and> truthy (resultLng nameOnlyResult))
   \<and> \<not> truthyStr (ai_address nameOnlyResult)
   \<and> (\<exists>rest. snd (handleGlobalSearch nameOnlyEnv (withQuery ''Bunnies'')) =
         AiRequest ''Bunnies''
         # ConsoleLog ''Geocoding using full address: Bunnies Bakery Singapore''
         # GeocodeRequest ''Bunnies Bakery Singapore'' # rest)"
proof -
  let ?s = "withQuery ''Bunnies''"
  have a: "trim notJsonEnv (searchQuery ?s) \<noteq> []" by code_simp
  have b: "find (localMatches (toLowerCase notJsonEnv) (searchQuery ?s)) (locations ?s) = None"
    by code_simp
  have a': "trim nameOnlyEnv (searchQuery ?s) \<noteq> []" by code_simp
  have b': "find (localMatches (toLowerCase nameOnlyEnv) (searchQuery ?s)) (locations ?s) = None"
    by code_simp
  have c: "generateContent notJsonEnv (searchQuery ?s) \<in> {AiRejected, AiNoText, AiNotJson, AiNull}"
    by (simp add: notJsonEnv_def)
  have d: "generateContent nameOnlyEnv (searchQuery ?s) = AiObject nameOnlyResult"
    by (simp add: nameOnlyEnv_def)
  have f: "\<not> (truthy (resultLat nameOnlyResult) \<and> truthy (resultLng nameOnlyResult))"
    by (simp add: nameOnlyResult_def resultLat_def)
  have g: "\<not> truthyStr (ai_address nameOnlyResult)"
    by (simp add: nameOnlyResult_def)
  have q: "searchQuery ?s = ''Bunnies''" by (simp add: withQuery_def)
  have n: "toStr (ai_name nameOnlyResult) @ '' Singapore'' = ''Bunnies Bakery Singapore''"
    by (simp add: nameOnlyResult_def)
  from soft_failure_behaviour [OF a b, of nameOnlyResult] c
  have r1: "handleGlobalSearch notJsonEnv ?s =
        (?s\<lparr>isSearching := False\<rparr>,
         [AiRequest (searchQuery ?s), ConsoleError ''Global search error'',
          Alert ''Search failed. Please try again.''])"
    by blast
  from soft_failure_behaviour [OF a' b', of nameOnlyResult] d f g
  have "\<exists>rest. snd (handleGlobalSearch nameOnlyEnv ?s) =
               AiRequest (searchQuery ?s)
               # ConsoleLog (''Geocoding using full address: '' @ toStr (ai_name nameOnlyResult) @ '' Singapore'')
               # GeocodeRequest (toStr (ai_name nameOnlyResult) @ '' Singapore'') # rest"
    by blast
  then have r2: "\<exists>rest. snd (handleGlobalSearch nameOnlyEnv ?s) =
         AiRequest ''Bunnies''
         # ConsoleLog ''Geocoding using full address: Bunnies Bakery Singapore''
         # GeocodeRequest ''Bunnies Bakery Singapore'' # rest"
    unfolding n q by simp
  from a b c r1 a' b' d f g r2 show ?thesis by blast
qed

subsection \<open>Coordinates supplied by the structured-knowledge service\<close>

text \<open>
  C4 as stated fails: a response whose latitude is 0 and whose longitude is 103.8198, both
  finite numbers, is not accepted directly; the handler issues a geocoding request and
  stores the coordinate of the directory hit.
\<close>

theorem direct_accept_zero_counterexample:
  "resultLat equatorResult = JNum (Finite 0)
   \<and> resultLng equatorResult = JNum (Finite 103.8198)
   \<and> isFinite (Finite 0) \<and> isFinite (Finite 103.8198)
   \<and> filter isDirectoryCall (snd (handleGlobalSearch equatorEnv (withQuery ''Equator Cafe'')))
       = [GeocodeRequest ''1 Equator Road'']
   \<and> map_option coordinate (searchResult (fst (handleGlobalSearch equatorEnv (withQuery ''Equator Cafe''))))
       = Some \<lparr>lat = JNum (Finite 1.3521), lng = JNum (Finite 103.8198)\<rparr>"
  by code_simp

text \<open>
  C4, amended. For a query that passes the guard and has no local match, and every
  response whose \<^verbatim>\<open>coordinates.lat\<close> and \<^verbatim>\<open>coordinates.lng\<close> are both truthy (for
  numbers: neither 0 nor NaN), the handler stores a record with exactly that coordinate
  and its only effect is the request to the structured-knowledge service: no directory
  request is made.
\<close>

theorem direct_accept_truthy:
  assumes "trim e (searchQuery s) \<noteq> []"
    and "find (localMatches (toLowerCase e) (searchQuery s)) (locations s) = None"
    and "generateContent e (searchQuery s) = AiObject r"
    and "truthy (resultLat r)" and "truthy (resultLng r)"
  shows "handleGlobalSearch e s =
           (s\<lparr>searchResult := Some (aiLocation e (searchQuery s) r (resultLat r) (resultLng r)),
              selectedLocationId := Some ''temp-search-result'',
              isSearching := False\<rparr>,
            [AiRequest (searchQuery s)])
         \<and> coordinate (aiLocation e (searchQuery s) r (resultLat r) (resultLng r))
             = \<lparr>lat = resultLat r, lng = resultLng r\<rparr>
         \<and> filter isDirectoryCall (snd (handleGlobalSearch e s)) = []"
proof -
  have "resolveCoordinates e r = ([], Inr (resultLat r, resultLng r))"
    using assms(4,5) by (rule resolve_direct)
  then have t: "tryBlock e s =
      ([AiRequest (searchQuery s)],
       Inr (s\<lparr>searchResult := Some (aiLocation e (searchQuery s) r (resultLat r) (resultLng r)),
              selectedLocationId := Some ''temp-search-result''\<rparr>))"
    using assms(3,4,5) by (simp add: tryBlock_def Let_def)
  have h: "handleGlobalSearch e s =
           (s\<lparr>searchResult := Some (aiLocation e (searchQuery s) r (resultLat r) (resultLng r)),
              selectedLocationId := Some ''temp-search-result'',
              isSearching := False\<rparr>,
            [AiRequest (searchQuery s)])"
    unfolding past_local [OF assms(1,2)] t by simp
  have c: "coordinate (aiLocation e (searchQuery s) r (resultLat r) (resultLng r))
             = \<lparr>lat = resultLat r, lng = resultLng r\<rparr>"
    by (simp add: aiLocation_def)
  from h c show ?thesis by simp
qed

theorem direct_accept_truthy_witness:
  "trim locatedEnv (searchQuery (withQuery ''Bunnies'')) \<noteq> []
   \<and> find (localMatches (toLowerCase locatedEnv) (searchQuery (withQuery ''Bunnies'')))
        (locations (withQuery ''Bunnies'')) = None
   \<and> generateContent locatedEnv (searchQuery (withQuery ''Bunnies'')) = AiObject locatedResult
   \<and> resultLat locatedResult = JNum (Finite 1.3131)
   \<and> resultLng locatedResult = JNum (Finite 103.9021)
   \<and> truthy (resultLat locatedResult) \<and> truthy (resultLng locatedResult)
   \<and> snd (handleGlobalSearch locatedEnv (withQuery ''Bunnies'')) = [AiRequest ''Bunnies'']
   \<and> map_option coordinate (searchResult (fst (handleGlobalSearch locatedEnv (withQuery ''Bunnies''))))
       = Some \<lparr>lat = JNum (Finite 1.3131), lng = JNum (Finite 103.9021)\<rparr>"
proof -
  let ?s = "withQuery ''Bunnies''"
  have a: "trim locatedEnv (searchQuery ?s) \<noteq> []" by code_simp
  have b: "find (localMatches (toLowerCase locatedEnv) (searchQuery ?s)) (locations ?s) = None"
    by code_simp
  have c: "generateContent locatedEnv (searchQuery ?s) = AiObject locatedResult"
    by (simp add: locatedEnv_def)
  have d: "resultLat locatedResult = JNum (Finite 1.3131)"
    by (simp add: locatedResult_def resultLat_def)
  have f: "resultLng locatedResult = JNum (Finite 103.9021)"
    by (simp add: locatedResult_def resultLng_def)
  have g: "truthy (resultLat locatedResult)" unfolding d by simp
  have h: "truthy (resultLng locatedResult)" unfolding f by simp
  have q: "searchQuery ?s = ''Bunnies''" by (simp add: withQuery_def)
  note T = direct_accept_truthy [OF a b c g h]
  from T have r1: "snd (handleGlobalSearch locatedEnv ?s) = [AiRequest ''Bunnies'']"
    unfolding q by simp
  from T have r2: "map_option coordinate (searchResult (fst (handleGlobalSearch locatedEnv ?s)))
       = Some \<lparr>lat = JNum (Finite 1.3131), lng = JNum (Finite 103.9021)\<rparr>"
    unfolding d f by simp
  from a b c d f g h r1 r2 show ?thesis by blast
qed

subsection \<open>Precision hint\<close>

lemma match_d6_hit:
  "6 \<le> length (c # s) \<and> list_all isDigit (take 6 (c # s)) \<Longrightarrow>
     match_d6 (c # s) = Some (take 6 (c # s))"
  by (simp only: match_d6.simps simp_thms if_True)

lemma match_d6_skip:
  "\<not> (6 \<le> length (c # s) \<and> list_all isDigit (take 6 (c # s))) \<Longrightarrow>
     match_d6 (c # s) = match_d6 s"
  by (simp only: match_d6.simps simp_thms if_False)

lemma match_d6_Some:
  "match_d6 s = Some code \<Longrightarrow>
     \<exists>p q. s = p @ code @ q \<and> length code = 6 \<and> list_all isDigit code
       \<and> (\<forall>p' t' q'. s = p' @ t' @ q' \<and> length t' = 6 \<and> list_all isDigit t'
             \<longrightarrow> length p \<le> length p')"
proof (induction s)
  case Nil
  then show ?case by simp
next
  case (Cons c s)
  show ?case
  proof (cases "6 \<le> length (c # s) \<and> list_all isDigit (take 6 (c # s))")
    case True
    from match_d6_hit [OF True] Cons.prems have code: "code = take 6 (c # s)"
      by (metis option.inject)
    have "c # s = [] @ code @ drop 6 (c # s)" unfolding code by simp
    moreover have "length code = 6" unfolding code using True by (simp del: take_Suc_Cons)
    moreover have "list_all isDigit code" unfolding code using True by blast
    ultimately show ?thesis by (metis le0 list.size(3))
  next
    case False
    from match_d6_skip [OF False] Cons.prems have "match_d6 s = Some code" by metis
    from Cons.IH [OF this] obtain p q where
      pq: "s = p @ code @ q" "length code = 6" "list_all isDigit code"
      and left: "\<forall>p' t' q'. s = p' @ t' @ q' \<and> length t' = 6 \<and> list_all isDigit t'
                  \<longrightarrow> length p \<le> length p'"
      by blast
    have "c # s = (c # p) @ code @ q" using pq(1) by simp
    moreover have "\<forall>p' t' q'. c # s = p' @ t' @ q' \<and> length t' = 6 \<and> list_all isDigit t'
                  \<longrightarrow> length (c # p) \<le> length p'"
    proof (intro allI impI)
      fix p' t' q'
      assume h: "c # s = p' @ t' @ q' \<and> length t' = 6 \<and> list_all isDigit t'"
      show "length (c # p) \<le> length p'"
      proof (cases p')
        case Nil
        with h have cs: "c # s = t' @ q'" and lt: "length t' = 6" and dt: "list_all isDigit t'"
          by simp_all
        have "take 6 (c # s) = t'" unfolding cs using lt by simp
        moreover have "6 \<le> length (c # s)" unfolding cs using lt by simp
        ultimately have "6 \<le> length (c # s) \<and> list_all isDigit (take 6 (c # s))"
          using dt by blast
        with False show ?thesis by blast
      next
        case (Cons d p'')
        with h have "s = p'' @ t' @ q'" by simp
        with left h have "length p \<le> length p''" by blast
        with Cons show ?thesis by simp
      qed
    qed
    ultimately show ?thesis using pq(2,3) by blast
  qed
qed

lemma match_d6_complete:
  "s = pre @ tok @ post \<Longrightarrow> length tok = 6 \<Longrightarrow> list_all isDigit tok \<Longrightarrow> match_d6 s \<noteq> None"
proof (induction pre arbitrary: s)
  case Nil
  then have s: "s = tok @ post" by simp
  have "s \<noteq> []" unfolding s using Nil(2) by auto
  then obtain c s' where cs: "s = c # s'" by (cases s) auto
  have "take 6 s = tok" unfolding s using Nil(2) by simp
  moreover have "6 \<le> length s" unfolding s using Nil(2) by simp
  ultimately have "6 \<le> length (c # s') \<and> list_all isDigit (take 6 (c # s'))"
    using Nil(3) cs by metis
  from match_d6_hit [OF this] show ?case unfolding cs by (simp only: option.distinct not_False_eq_True)
next
  case (Cons c pre)
  then have ih: "match_d6 (pre @ tok @ post) \<noteq> None" by blast
  have s: "s = c # (pre @ tok @ post)" using Cons.prems(1) by simp
  show ?case
  proof (cases "6 \<le> length (c # (pre @ tok @ post)) \<and> list_all isDigit (take 6 (c # (pre @ tok @ post)))")
    case True
    from match_d6_hit [OF True] show ?thesis unfolding s by (simp only: option.distinct not_False_eq_True)
  next
    case False
    from match_d6_skip [OF False] ih show ?thesis unfolding s by metis
  qed
qed

text \<open>
  C5. At the address "Tel 61234567, 376 Joo Chiat Rd, Singapore 427630", which contains
  the six-digit token "427630", the extractor yields "612345", the first six digits of
  the telephone number: the pattern is not anchored at the ends of a run of digits. The
  directory query is "612345 Singapore" at both call sites, and in the text search the
  directory, which knows the postal code, is never asked for it: the run ends in the
  fallback request.
\<close>

theorem postal_code_fragment_of_phone_number:
  "phoneAddress = ''Tel 61234567, 376 Joo Chiat Rd, Singapore '' @ ''427630'' @ []
   \<and> length ''427630'' = 6 \<and> list_all isDigit ''427630''
   \<and> match_d6 phoneAddress = Some ''612345''
   \<and> modalGeocodeQuery ''Bunnies Bakery'' (Some phoneAddress) = ''612345 Singapore''
   \<and> fst (geocodeQuery phoneResult) = ''612345 Singapore''
   \<and> filter isDirectoryCall (snd (handleGlobalSearch phoneEnv (withQuery ''Bunnies'')))
       = [GeocodeRequest ''612345 Singapore'', FallbackRequest ''Bunnies Singapore'']"
proof -
  have a: "phoneAddress = ''Tel 61234567, 376 Joo Chiat Rd, Singapore '' @ ''427630'' @ []"
    by (simp add: phoneAddress_def)
  have b: "length ''427630'' = 6" by simp
  have c: "list_all isDigit ''427630''" by (simp add: isDigit_def)
  have d: "match_d6 phoneAddress = Some ''612345''" by code_simp
  have f: "modalGeocodeQuery ''Bunnies Bakery'' (Some phoneAddress) = ''612345 Singapore''"
    by code_simp
  have g: "fst (geocodeQuery phoneResult) = ''612345 Singapore''"
    by code_simp
  have h: "filter isDirectoryCall (snd (handleGlobalSearch phoneEnv (withQuery ''Bunnies'')))
       = [GeocodeRequest ''612345 Singapore'', FallbackRequest ''Bunnies Singapore'']"
    by code_simp
  from a b c d f g h show ?thesis by blast
qed

text \<open>
  Where the six digits of the postal code are the first six digits in a row, as in the
  address "376 Joo Chiat Rd, Singapore 427630", the extractor yields the postal code and
  the query is the code followed by " Singapore".
\<close>

lemma postal_code_example:
  "match_d6 ''376 Joo Chiat Rd, Singapore 427630'' = Some ''427630''
   \<and> modalGeocodeQuery ''Bunnies Bakery'' (Some ''376 Joo Chiat Rd, Singapore 427630'')
       = ''427630 Singapore''
   \<and> fst (geocodeQuery postalResult) = ''427630 Singapore''
   \<and> filter isDirectoryCall (snd (handleGlobalSearch postalEnv (withQuery ''Bunnies'')))
       = [GeocodeRequest ''427630 Singapore'']"
  by code_simp

text \<open>
  In general the extractor yields the leftmost six digits in a row, wherever they stand.
\<close>

lemma match_d6_leftmost:
  assumes "addr = pre @ tok @ post" and "length tok = 6" and "list_all isDigit tok"
  shows "\<exists>code p q.
           match_d6 addr = Some code
           \<and> addr = p @ code @ q \<and> length code = 6 \<and> list_all isDigit code
           \<and> length p \<le> length pre
           \<and> modalGeocodeQuery queryName (Some addr) = code @ '' Singapore''
           \<and> (ai_address r = Some addr \<longrightarrow> fst (geocodeQuery r) = code @ '' Singapore'')"
proof -
  from match_d6_complete [OF assms] obtain code where m: "match_d6 addr = Some code"
    by blast
  from match_d6_Some [OF m] obtain p q where
    pq: "addr = p @ code @ q" "length code = 6" "list_all isDigit code"
    and left: "\<forall>p' t' q'. addr = p' @ t' @ q' \<and> length t' = 6 \<and> list_all isDigit t'
                \<longrightarrow> length p \<le> length p'"
    by blast
  have le: "length p \<le> length pre"
    using left assms by blast
  have ne: "addr \<noteq> []" using assms(1,2) by auto
  have modal: "modalGeocodeQuery queryName (Some addr) = code @ '' Singapore''"
    using m ne by (simp add: modalGeocodeQuery_def)
  have gq: "ai_address r = Some addr \<longrightarrow> fst (geocodeQuery r) = code @ '' Singapore''"
    using m by (simp add: geocodeQuery_def Let_def)
  from m pq le modal gq show ?thesis by blast
qed

subsection \<open>Terminal failure\<close>

lemma geocodeQuery_log: "\<exists>m. snd (geocodeQuery r) = ConsoleLog m"
  by (simp add: geocodeQuery_def Let_def split: option.splits)

lemma resolve_empty:
  assumes "\<not> (truthy (resultLat r) \<and> truthy (resultLng r))"
    and "geocodeFetch e (fst (geocodeQuery r)) = Hits []"
  shows "resolveCoordinates e r =
           ([snd (geocodeQuery r), GeocodeRequest (fst (geocodeQuery r))],
            Inr (resultLat r, resultLng r))"
  using assms by (auto simp: resolveCoordinates_def Let_def split_beta)

lemma resolve_hit:
  assumes "\<not> (truthy (resultLat r) \<and> truthy (resultLng r))"
    and "geocodeFetch e (fst (geocodeQuery r)) = Hits (g # rest)"
  shows "resolveCoordinates e r =
           ([snd (geocodeQuery r), GeocodeRequest (fst (geocodeQuery r))],
            Inr (JNum (parseFloat e (h_lat g)), JNum (parseFloat e (h_lon g))))"
  using assms by (auto simp: resolveCoordinates_def Let_def split_beta)

lemma try_direct:
  assumes "generateContent e (searchQuery s) = AiObject r"
    and "resolveCoordinates e r = (evs, Inr (fl, fg))"
    and "truthy fl" and "truthy fg"
  shows "tryBlock e s =
           (AiRequest (searchQuery s) # evs,
            Inr (s\<lparr>searchResult := Some (aiLocation e (searchQuery s) r fl fg),
                   selectedLocationId := Some ''temp-search-result''\<rparr>))"
  using assms by (simp add: tryBlock_def Let_def)

lemma try_error:
  assumes "generateContent e (searchQuery s) = AiObject r"
    and "resolveCoordinates e r = (evs, Inl x)"
  shows "tryBlock e s = (AiRequest (searchQuery s) # evs, Inl x)"
  using assms by (simp add: tryBlock_def Let_def)

lemma try_fallback:
  assumes "generateContent e (searchQuery s) = AiObject r"
    and "resolveCoordinates e r = (evs, Inr (fl, fg))"
    and "\<not> (truthy fl \<and> truthy fg)"
  shows "tryBlock e s =
           (AiRequest (searchQuery s) # evs @ fst (fallbackTier e s), snd (fallbackTier e s))"
  using assms by (auto simp: tryBlock_def Let_def split_beta)

lemma fallback_empty:
  assumes "fallbackFetch e (searchQuery s @ '' Singapore'') = Hits []"
  shows "fallbackTier e s =
           ([FallbackRequest (searchQuery s @ '' Singapore''), Alert (notFoundMessage (searchQuery s))],
            Inr s)"
  using assms by (simp add: fallbackTier_def Let_def)

lemma fallback_first_hit:
  assumes "fallbackFetch e (searchQuery s @ '' Singapore'') = Hits (best # rest)"
  shows "fallbackTier e s =
           ([FallbackRequest (searchQuery s @ '' Singapore'')],
            Inr (s\<lparr>searchResult := Some (fallbackLocation e (searchQuery s) best),
                   selectedLocationId := Some ''temp-search-result''\<rparr>))"
  using assms by (simp add: fallbackTier_def Let_def)

text \<open>
  The coordinates after the geocoding step when neither the service nor the geocoding
  request gives a truthy pair.
\<close>

lemma resolve_unusable:
  assumes "\<not> (truthy (resultLat r) \<and> truthy (resultLng r))"
    and "geocodeFetch e (fst (geocodeQuery r)) = Hits gs"
    and "gs = [] \<or> (\<exists>g rest. gs = g # rest
                      \<and> \<not> (truthyNum (parseFloat e (h_lat g)) \<and> truthyNum (parseFloat e (h_lon g))))"
  shows "\<exists>fl fg. resolveCoordinates e r =
                    ([snd (geocodeQuery r), GeocodeRequest (fst (geocodeQuery r))], Inr (fl, fg))
                 \<and> \<not> (truthy fl \<and> truthy fg)"
proof (cases gs)
  case Nil
  with assms(1,2) resolve_empty show ?thesis by blast
next
  case (Cons g rest)
  with assms(3) have "\<not> (truthy (JNum (parseFloat e (h_lat g)))
                          \<and> truthy (JNum (parseFloat e (h_lon g))))"
    by simp
  moreover from Cons assms(1,2) have "resolveCoordinates e r =
           ([snd (geocodeQuery r), GeocodeRequest (fst (geocodeQuery r))],
            Inr (JNum (parseFloat e (h_lat g)), JNum (parseFloat e (h_lon g))))"
    using resolve_hit by blast
  ultimately show ?thesis by blast
qed

text \<open>
  C6 as stated fails: the query has no local match, the structured-knowledge service
  fails (its call is rejected) and the directory has no hit for any query, yet the run
  never issues the tier-2 request, and the one signal it raises is the "Search failed.
  Please try again." alert, not the not-found one.
\<close>

theorem terminal_search_failed_counterexample:
  "find (localMatches (toLowerCase rejectedEmptyEnv) (searchQuery (withQuery ''Bunnies'')))
     (locations (withQuery ''Bunnies'')) = None
   \<and> generateContent rejectedEmptyEnv ''Bunnies'' = AiRejected
   \<and> geocodeFetch rejectedEmptyEnv ''Bunnies Singapore'' = Hits []
   \<and> fallbackFetch rejectedEmptyEnv ''Bunnies Singapore'' = Hits []
   \<and> snd (handleGlobalSearch rejectedEmptyEnv (withQuery ''Bunnies''))
       = [AiRequest ''Bunnies'', ConsoleError ''Global search error'',
          Alert ''Search failed. Please try again.'']
   \<and> filter isAlert (snd (handleGlobalSearch rejectedEmptyEnv (withQuery ''Bunnies'')))
       = [Alert ''Search failed. Please try again.'']
   \<and> filter isDirectoryCall (snd (handleGlobalSearch rejectedEmptyEnv (withQuery ''Bunnies''))) = []"
  by code_simp

text \<open>
  C6, amended. For every query that passes the guard and has no local match, where the
  structured-knowledge service returns a body that parses to an object without a truthy
  coordinate pair, the geocoding request on its output is answered with no hit or with a
  first hit whose parsed coordinates are not both truthy, and the tier-2 fallback request
  on the raw query returns an empty array: the handler ends with the state unchanged (no
  candidate is stored), it raises exactly one alert, and that alert reads
  \<^verbatim>\<open>Could not find a specific location for "<query>".\<close>, and it has issued each of the
  three requests exactly once, in the order of the tiers.
\<close>

theorem terminal_not_found:
  assumes "trim e (searchQuery s) \<noteq> []"
    and "find (localMatches (toLowerCase e) (searchQuery s)) (locations s) = None"
    and "generateContent e (searchQuery s) = AiObject r"
    and "\<not> (truthy (resultLat r) \<and> truthy (resultLng r))"
    and "geocodeFetch e (fst (geocodeQuery r)) = Hits gs"
    and "gs = [] \<or> (\<exists>g rest. gs = g # rest
                      \<and> \<not> (truthyNum (parseFloat e (h_lat g)) \<and> truthyNum (parseFloat e (h_lon g))))"
    and "fallbackFetch e (searchQuery s @ '' Singapore'') = Hits []"
  shows "handleGlobalSearch e s =
           (s\<lparr>isSearching := False\<rparr>,
            [AiRequest (searchQuery s), snd (geocodeQuery r),
             GeocodeRequest (fst (geocodeQuery r)),
             FallbackRequest (searchQuery s @ '' Singapore''),
             Alert (''Could not find a specific location for '' @ [CHR 0x22] @ searchQuery s
                    @ [CHR 0x22] @ ''.'')])
         \<and> searchResult (fst (handleGlobalSearch e s)) = searchResult s
         \<and> filter isAlert (snd (handleGlobalSearch e s)) =
             [Alert (''Could not find a specific location for '' @ [CHR 0x22] @ searchQuery s
                     @ [CHR 0x22] @ ''.'')]
         \<and> filter isRemoteCall (snd (handleGlobalSearch e s)) =
             [AiRequest (searchQuery s), GeocodeRequest (fst (geocodeQuery r)),
              FallbackRequest (searchQuery s @ '' Singapore'')]"
proof -
  from resolve_unusable [OF assms(4,5,6)] obtain fl fg where
    res: "resolveCoordinates e r =
            ([snd (geocodeQuery r), GeocodeRequest (fst (geocodeQuery r))], Inr (fl, fg))"
    and falsy: "\<not> (truthy fl \<and> truthy fg)"
    by blast
  have t: "tryBlock e s =
      ([AiRequest (searchQuery s), snd (geocodeQuery r), GeocodeRequest (fst (geocodeQuery r)),
        FallbackRequest (searchQuery s @ '' Singapore''), Alert (notFoundMessage (searchQuery s))],
       Inr s)"
    unfolding try_fallback [OF assms(3) res falsy] fallback_empty [OF assms(7)] by simp
  have h: "handleGlobalSearch e s =
           (s\<lparr>isSearching := False\<rparr>,
            [AiRequest (searchQuery s), snd (geocodeQuery r),
             GeocodeRequest (fst (geocodeQuery r)),
             FallbackRequest (searchQuery s @ '' Singapore''),
             Alert (''Could not find a specific location for '' @ [CHR 0x22] @ searchQuery s
                    @ [CHR 0x22] @ ''.'')])"
    unfolding past_local [OF assms(1,2)] t by (simp add: notFoundMessage_def)
  obtain m where m: "snd (geocodeQuery r) = ConsoleLog m"
    using geocodeQuery_log by blast
  show ?thesis unfolding h m by simp
qed

theorem terminal_not_found_witness:
  "trim emptyDirectoryEnv (searchQuery (withQuery ''Bunnies'')) \<noteq> []
   \<and> find (localMatches (toLowerCase emptyDirectoryEnv) (searchQuery (withQuery ''Bunnies'')))
        (locations (withQuery ''Bunnies'')) = None
   \<and> generateContent emptyDirectoryEnv (searchQuery (withQuery ''Bunnies'')) = AiObject nameOnlyResult
   \<and> \<not> (truthy (resultLat nameOnlyResult) \<and> truthy (resultLng nameOnlyResult))
   \<and> geocodeFetch emptyDirectoryEnv (fst (geocodeQuery nameOnlyResult)) = Hits []
   \<and> fallbackFetch emptyDirectoryEnv (searchQuery (withQuery ''Bunnies'') @ '' Singapore'') = Hits []
   \<and> searchResult (fst (handleGlobalSearch emptyDirectoryEnv (withQuery ''Bunnies''))) = None
   \<and> filter isAlert (snd (handleGlobalSearch emptyDirectoryEnv (withQuery ''Bunnies'')))
       = [Alert (''Could not find a specific location for '' @ [CHR 0x22] @ ''Bunnies''
                 @ [CHR 0x22] @ ''.'')]
   \<and> filter isRemoteCall (snd (handleGlobalSearch emptyDirectoryEnv (withQuery ''Bunnies'')))
       = [AiRequest ''Bunnies'', GeocodeRequest ''Bunnies Bakery Singapore'',
          FallbackRequest ''Bunnies Singapore'']"
proof -
  let ?s = "withQuery ''Bunnies''"
  have a: "trim emptyDirectoryEnv (searchQuery ?s) \<noteq> []" by code_simp
  have b: "find (localMatches (toLowerCase emptyDirectoryEnv) (searchQuery ?s)) (locations ?s) = None"
    by code_simp
  have c: "generateContent emptyDirectoryEnv (searchQuery ?s) = AiObject nameOnlyResult"
    by (simp add: emptyDirectoryEnv_def)
  have d: "\<not> (truthy (resultLat nameOnlyResult) \<and> truthy (resultLng nameOnlyResult))"
    by (simp add: nameOnlyResult_def resultLat_def)
  have f: "geocodeFetch emptyDirectoryEnv (fst (geocodeQuery nameOnlyResult)) = Hits []"
    by (simp add: emptyDirectoryEnv_def)
  have g: "[] = [] \<or> (\<exists>g rest. [] = g # rest
                      \<and> \<not> (truthyNum (parseFloat emptyDirectoryEnv (h_lat g))
                            \<and> truthyNum (parseFloat emptyDirectoryEnv (h_lon g))))"
    by simp
  have h: "fallbackFetch emptyDirectoryEnv (searchQuery ?s @ '' Singapore'') = Hits []"
    by (simp add: emptyDirectoryEnv_def)
  have q: "searchQuery ?s = ''Bunnies''" by (simp add: withQuery_def)
  have sr: "searchResult ?s = None" by (simp add: withQuery_def initialState_def)
  have gq: "fst (geocodeQuery nameOnlyResult) = ''Bunnies Bakery Singapore''" by code_simp
  note T = terminal_not_found [OF a b c d f g h]
  from T sr have r1: "searchResult (fst (handleGlobalSearch emptyDirectoryEnv ?s)) = None"
    by metis
  from T have r2: "filter isAlert (snd (handleGlobalSearch emptyDirectoryEnv ?s))
       = [Alert (''Could not find a specific location for '' @ [CHR 0x22] @ ''Bunnies''
                 @ [CHR 0x22] @ ''.'')]"
    unfolding q by blast
  from T have "filter isRemoteCall (snd (handleGlobalSearch emptyDirectoryEnv ?s)) =
             [AiRequest (searchQuery ?s), GeocodeRequest (fst (geocodeQuery nameOnlyResult)),
              FallbackRequest (searchQuery ?s @ '' Singapore'')]"
    by blast
  then have r3: "filter isRemoteCall (snd (handleGlobalSearch emptyDirectoryEnv ?s))
       = [AiRequest ''Bunnies'', GeocodeRequest ''Bunnies Bakery Singapore'',
          FallbackRequest ''Bunnies Singapore'']"
    unfolding q gq by simp
  from a b c d f h r1 r2 r3 show ?thesis by blast
qed

subsection \<open>Coordinates of materialized records\<close>

lemma resolve_fetch_fails:
  assumes "\<not> (truthy (resultLat r) \<and> truthy (resultLng r))"
    and "geocodeFetch e (fst (geocodeQuery r)) = FetchRejected
         \<or> geocodeFetch e (fst (geocodeQuery r)) = BodyNotJson"
  shows "\<exists>evs x. resolveCoordinates e r = (evs, Inl x)"
  using assms by (auto simp: resolveCoordinates_def Let_def split_beta)

lemma fallback_shape:
  "(\<exists>x. snd (fallbackTier e s) = Inl x)
   \<or> snd (fallbackTier e s) = Inr s
   \<or> (\<exists>best rest. fallbackFetch e (searchQuery s @ '' Singapore'') = Hits (best # rest)
         \<and> snd (fallbackTier e s) =
             Inr (s\<lparr>searchResult := Some (fallbackLocation e (searchQuery s) best),
                    selectedLocationId := Some ''temp-search-result''\<rparr>))"
  by (auto simp: fallbackTier_def Let_def split: fetch_outcome.splits list.splits)

lemma stored_direct:
  assumes "trim e (searchQuery s) \<noteq> []"
    and "find (localMatches (toLowerCase e) (searchQuery s)) (locations s) = None"
    and "generateContent e (searchQuery s) = AiObject r"
    and "truthy (resultLat r)" and "truthy (resultLng r)"
  shows "searchResult (fst (handleGlobalSearch e s))
           = Some (aiLocation e (searchQuery s) r (resultLat r) (resultLng r))"
proof -
  have "resolveCoordinates e r = ([], Inr (resultLat r, resultLng r))"
    using assms(4,5) by (rule resolve_direct)
  from try_direct [OF assms(3) this assms(4,5)] show ?thesis
    unfolding past_local [OF assms(1,2)] by simp
qed

lemma stored_geocoded:
  assumes "trim e (searchQuery s) \<noteq> []"
    and "find (localMatches (toLowerCase e) (searchQuery s)) (locations s) = None"
    and "generateContent e (searchQuery s) = AiObject r"
    and "\<not> (truthy (resultLat r) \<and> truthy (resultLng r))"
    and "geocodeFetch e (fst (geocodeQuery r)) = Hits (g # rest)"
    and "truthyNum (parseFloat e (h_lat g))" and "truthyNum (parseFloat e (h_lon g))"
  shows "searchResult (fst (handleGlobalSearch e s))
           = Some (aiLocation e (searchQuery s) r
                     (JNum (parseFloat e (h_lat g))) (JNum (parseFloat e (h_lon g))))"
proof -
  note res = resolve_hit [OF assms(4,5)]
  have t1: "truthy (JNum (parseFloat e (h_lat g)))" using assms(6) by simp
  have t2: "truthy (JNum (parseFloat e (h_lon g)))" using assms(7) by simp
  from try_direct [OF assms(3) res t1 t2] show ?thesis
    unfolding past_local [OF assms(1,2)] by simp
qed

lemma stored_fallback:
  assumes "trim e (searchQuery s) \<noteq> []"
    and "find (localMatches (toLowerCase e) (searchQuery s)) (locations s) = None"
    and "generateContent e (searchQuery s) = AiObject r"
    and "\<not> (truthy (resultLat r) \<and> truthy (resultLng r))"
    and "geocodeFetch e (fst (geocodeQuery r)) = Hits gs"
    and "gs = [] \<or> (\<exists>g rest. gs = g # rest
                      \<and> \<not> (truthyNum (parseFloat e (h_lat g)) \<and> truthyNum (parseFloat e (h_lon g))))"
    and "fallbackFetch e (searchQuery s @ '' Singapore'') = Hits (best # rest')"
  shows "searchResult (fst (handleGlobalSearch e s))
           = Some (fallbackLocation e (searchQuery s) best)"
proof -
  from resolve_unusable [OF assms(4,5,6)] obtain fl fg where
    res: "resolveCoordinates e r =
            ([snd (geocodeQuery r), GeocodeRequest (fst (geocodeQuery r))], Inr (fl, fg))"
    and falsy: "\<not> (truthy fl \<and> truthy fg)"
    by blast
  show ?thesis
    unfolding past_local [OF assms(1,2)] try_fallback [OF assms(3) res falsy]
              fallback_first_hit [OF assms(7)]
    by simp
qed

text \<open>
  Every run of the text search leaves the temporary result as it was, clears it (local
  match), or stores one of three records: the one built from the service's truthy
  coordinates, the one built from the truthy parsed coordinates of the first geocoding
  hit, or the one built from the first hit of the fallback request.
\<close>

lemma stored_only:
  "searchResult (fst (handleGlobalSearch e s)) = searchResult s
   \<or> searchResult (fst (handleGlobalSearch e s)) = None
   \<or> (\<exists>r. generateContent e (searchQuery s) = AiObject r
         \<and> truthy (resultLat r) \<and> truthy (resultLng r)
         \<and> searchResult (fst (handleGlobalSearch e s))
             = Some (aiLocation e (searchQuery s) r (resultLat r) (resultLng r)))
   \<or> (\<exists>r g rest. generateContent e (searchQuery s) = AiObject r
         \<and> geocodeFetch e (fst (geocodeQuery r)) = Hits (g # rest)
         \<and> truthyNum (parseFloat e (h_lat g)) \<and> truthyNum (parseFloat e (h_lon g))
         \<and> searchResult (fst (handleGlobalSearch e s))
             = Some (aiLocation e (searchQuery s) r
                       (JNum (parseFloat e (h_lat g))) (JNum (parseFloat e (h_lon g)))))
   \<or> (\<exists>best rest. fallbackFetch e (searchQuery s @ '' Singapore'') = Hits (best # rest)
         \<and> searchResult (fst (handleGlobalSearch e s))
             = Some (fallbackLocation e (searchQuery s) best))"
proof (cases "trim e (searchQuery s) = []")
  case True
  then show ?thesis by (simp add: handleGlobalSearch_def)
next
  case nb: False
  show ?thesis
  proof (cases "find (localMatches (toLowerCase e) (searchQuery s)) (locations s)")
    case (Some m)
    with nb show ?thesis by (simp add: handleGlobalSearch_def)
  next
    case nl: None
    note pl = past_local [OF nb nl]
    have thrown: "searchResult (fst (handleGlobalSearch e s)) = searchResult s"
      if "snd (tryBlock e s) = Inl x" for x
      using that unfolding pl by (cases "tryBlock e s") simp
    have kept: "searchResult (fst (handleGlobalSearch e s)) = searchResult s"
      if "snd (tryBlock e s) = Inr s"
      using that unfolding pl by (cases "tryBlock e s") simp
    show ?thesis
    proof (cases "generateContent e (searchQuery s)")
      case (AiObject r)
      show ?thesis
      proof (cases "truthy (resultLat r) \<and> truthy (resultLng r)")
        case True
        with stored_direct [OF nb nl AiObject] AiObject show ?thesis by blast
      next
        case falsy: False
        have via_fallback: ?thesis
          if res: "resolveCoordinates e r = (evs, Inr (fl, fg))"
            and f: "\<not> (truthy fl \<and> truthy fg)" for evs fl fg
        proof -
          have t: "snd (tryBlock e s) = snd (fallbackTier e s)"
            unfolding try_fallback [OF AiObject res f] by simp
          from fallback_shape [of e s] show ?thesis
          proof (elim disjE exE conjE)
            fix x assume "snd (fallbackTier e s) = Inl x"
            with t thrown show ?thesis by simp
          next
            assume "snd (fallbackTier e s) = Inr s"
            with t kept show ?thesis by simp
          next
            fix best rest
            assume fb: "fallbackFetch e (searchQuery s @ '' Singapore'') = Hits (best # rest)"
              and "snd (fallbackTier e s) =
                     Inr (s\<lparr>searchResult := Some (fallbackLocation e (searchQuery s) best),
                            selectedLocationId := Some ''temp-search-result''\<rparr>)"
            with t have "searchResult (fst (handleGlobalSearch e s))
                           = Some (fallbackLocation e (searchQuery s) best)"
              unfolding pl by (cases "tryBlock e s") simp
            with fb show ?thesis by blast
          qed
        qed
        show ?thesis
        proof (cases "geocodeFetch e (fst (geocodeQuery r))")
          case (Hits gs)
          show ?thesis
          proof (cases gs)
            case Nil
            from resolve_empty [OF falsy] Hits Nil falsy via_fallback show ?thesis by blast
          next
            case (Cons g rest)
            note res = resolve_hit [OF falsy, of e g rest]
            show ?thesis
            proof (cases "truthyNum (parseFloat e (h_lat g)) \<and> truthyNum (parseFloat e (h_lon g))")
              case True
              with stored_geocoded [OF nb nl AiObject falsy, of g rest] Hits Cons AiObject
              show ?thesis by blast
            next
              case False
              then have "\<not> (truthy (JNum (parseFloat e (h_lat g)))
                             \<and> truthy (JNum (parseFloat e (h_lon g))))"
                by simp
              with res Hits Cons via_fallback show ?thesis by blast
            qed
          qed
        next
          case FetchRejected
          with resolve_fetch_fails [OF falsy, of e] obtain evs x
            where "resolveCoordinates e r = (evs, Inl x)" by blast
          from try_error [OF AiObject this] thrown show ?thesis by simp
        next
          case BodyNotJson
          with resolve_fetch_fails [OF falsy, of e] obtain evs x
            where "resolveCoordinates e r = (evs, Inl x)" by blast
          from try_error [OF AiObject this] thrown show ?thesis by simp
        qed
      qed
    qed (use thrown in \<open>simp_all add: tryBlock_def\<close>)
  qed
qed

text \<open>
  C1 as stated fails: when the structured-knowledge service answers with latitude and
  longitude swapped, the handler stores a record whose latitude is 103.9021, outside
  [-90, 90]; when the latitude of the answer is \<^verbatim>\<open>Infinity\<close>, the handler stores a record
  whose latitude is not finite.
\<close>

theorem coordinate_range_counterexample:
  "map_option coordinate (searchResult (fst (handleGlobalSearch swappedEnv (withQuery ''Bunnies''))))
     = Some \<lparr>lat = JNum (Finite 103.9021), lng = JNum (Finite 1.3131)\<rparr>
   \<and> \<not> inRange (- 90) 90 (Finite 103.9021)
   \<and> map_option coordinate (searchResult (fst (handleGlobalSearch overflowEnv (withQuery ''Bunnies''))))
     = Some \<lparr>lat = JNum PosInfinity, lng = JNum (Finite 103.9021)\<rparr>
   \<and> \<not> isFinite PosInfinity"
proof -
  have a: "map_option coordinate (searchResult (fst (handleGlobalSearch swappedEnv (withQuery ''Bunnies''))))
     = Some \<lparr>lat = JNum (Finite 103.9021), lng = JNum (Finite 1.3131)\<rparr>"
    by code_simp
  have b: "\<not> inRange (- 90) 90 (Finite 103.9021)" by simp
  have c: "map_option coordinate (searchResult (fst (handleGlobalSearch overflowEnv (withQuery ''Bunnies''))))
     = Some \<lparr>lat = JNum PosInfinity, lng = JNum (Finite 103.9021)\<rparr>"
    by code_simp
  have d: "\<not> isFinite PosInfinity" by simp
  from a b c d show ?thesis by blast
qed

text \<open>
  C1, amended. The text search stores a record in three ways only. When the
  \<^verbatim>\<open>coordinates.lat\<close> and \<^verbatim>\<open>coordinates.lng\<close> of the service's answer are both truthy (for
  numbers: neither 0 nor NaN), the record carries these two values as they are. When they
  are not, and the \<^verbatim>\<open>lat\<close> and \<^verbatim>\<open>lon\<close> strings of the first geocoding hit both parse to
  truthy numbers, the record carries the two parsed numbers. When neither gives a truthy
  pair and the fallback request returns a hit, the record carries the \<^verbatim>\<open>parseFloat\<close>
  values of the first fallback hit's \<^verbatim>\<open>lat\<close> and \<^verbatim>\<open>lon\<close> strings, whatever they are. The
  record of a selected suggestion carries the \<^verbatim>\<open>parseFloat\<close> values of the suggestion's
  \<^verbatim>\<open>lat\<close> and \<^verbatim>\<open>lon\<close> strings, and the records of an area search carry the \<^verbatim>\<open>lat\<close> and
  \<^verbatim>\<open>lon\<close> of their elements unchanged. Truthiness is the only test made on a coordinate:
  no path tests finiteness or the ranges of the data model.
\<close>

theorem coordinate_provenance:
  "(trim e (searchQuery s) \<noteq> []
      \<and> find (localMatches (toLowerCase e) (searchQuery s)) (locations s) = None
      \<and> generateContent e (searchQuery s) = AiObject r
      \<and> truthy (resultLat r) \<and> truthy (resultLng r) \<longrightarrow>
    searchResult (fst (handleGlobalSearch e s))
      = Some (aiLocation e (searchQuery s) r (resultLat r) (resultLng r))
    \<and> coordinate (aiLocation e (searchQuery s) r (resultLat r) (resultLng r))
      = \<lparr>lat = resultLat r, lng = resultLng r\<rparr>)
   \<and> (trim e (searchQuery s) \<noteq> []
      \<and> find (localMatches (toLowerCase e) (searchQuery s)) (locations s) = None
      \<and> generateContent e (searchQuery s) = AiObject r
      \<and> \<not> (truthy (resultLat r) \<and> truthy (resultLng r))
      \<and> geocodeFetch e (fst (geocodeQuery r)) = Hits (g # rest)
      \<and> truthyNum (parseFloat e (h_lat g)) \<and> truthyNum (parseFloat e (h_lon g)) \<longrightarrow>
    searchResult (fst (handleGlobalSearch e s))
      = Some (aiLocation e (searchQuery s) r
                (JNum (parseFloat e (h_lat g))) (JNum (parseFloat e (h_lon g))))
    \<and> coordinate (aiLocation e (searchQuery s) r
                (JNum (parseFloat e (h_lat g))) (JNum (parseFloat e (h_lon g))))
      = \<lparr>lat = JNum (parseFloat e (h_lat g)), lng = JNum (parseFloat e (h_lon g))\<rparr>)
   \<and> (trim e (searchQuery s) \<noteq> []
      \<and> find (localMatches (toLowerCase e) (searchQuery s)) (locations s) = None
      \<and> generateContent e (searchQuery s) = AiObject r
      \<and> \<not> (truthy (resultLat r) \<and> truthy (resultLng r))
      \<and> geocodeFetch e (fst (geocodeQuery r)) = Hits gs
      \<and> (gs = [] \<or> (\<exists>g' rest'. gs = g' # rest'
             \<and> \<not> (truthyNum (parseFloat e (h_lat g')) \<and> truthyNum (parseFloat e (h_lon g')))))
      \<and> fallbackFetch e (searchQuery s @ '' Singapore'') = Hits (best # others) \<longrightarrow>
    searchResult (fst (handleGlobalSearch e s))
      = Some (fallbackLocation e (searchQuery s) best)
    \<and> coordinate (fallbackLocation e (searchQuery s) best)
      = \<lparr>lat = JNum (parseFloat e (h_lat best)), lng = JNum (parseFloat e (h_lon best))\<rparr>)
   \<and> (searchResult (fst (handleGlobalSearch e s)) = searchResult s
      \<or> searchResult (fst (handleGlobalSearch e s)) = None
      \<or> (\<exists>r'. generateContent e (searchQuery s) = AiObject r'
            \<and> truthy (resultLat r') \<and> truthy (resultLng r')
            \<and> searchResult (fst (handleGlobalSearch e s))
                = Some (aiLocation e (searchQuery s) r' (resultLat r') (resultLng r')))
      \<or> (\<exists>r' g' rest'. generateContent e (searchQuery s) = AiObject r'
            \<and> geocodeFetch e (fst (geocodeQuery r')) = Hits (g' # rest')
            \<and> truthyNum (parseFloat e (h_lat g')) \<and> truthyNum (parseFloat e (h_lon g'))
            \<and> searchResult (fst (handleGlobalSearch e s))
                = Some (aiLocation e (searchQuery s) r'
                          (JNum (parseFloat e (h_lat g'))) (JNum (parseFloat e (h_lon g')))))
      \<or> (\<exists>best' rest'. fallbackFetch e (searchQuery s @ '' Singapore'') = Hits (best' # rest')
            \<and> searchResult (fst (handleGlobalSearch e s))
                = Some (fallbackLocation e (searchQuery s) best')))
   \<and> map_option coordinate (searchResult (handleSuggestionSelect pf sg s))
       = Some \<lparr>lat = JNum (pf (sg_lat sg)), lng = JNum (pf (sg_lon sg))\<rparr>
   \<and> (fetchOverpass b = OverpassElements els \<longrightarrow>
        map coordinate (suggestedLocations (fst (handleSearchArea fetchOverpass b s)))
          = map (\<lambda>el. \<lparr>lat = el_lat el, lng = el_lon el\<rparr>) (filter (notSaved (locations s)) els))"
proof -
  have c_ai: "coordinate (aiLocation e q' r a' b') = \<lparr>lat = a', lng = b'\<rparr>" for q' a' b'
    by (simp add: aiLocation_def)
  have p1: "trim e (searchQuery s) \<noteq> []
      \<and> find (localMatches (toLowerCase e) (searchQuery s)) (locations s) = None
      \<and> generateContent e (searchQuery s) = AiObject r
      \<and> truthy (resultLat r) \<and> truthy (resultLng r) \<longrightarrow>
    searchResult (fst (handleGlobalSearch e s))
      = Some (aiLocation e (searchQuery s) r (resultLat r) (resultLng r))
    \<and> coordinate (aiLocation e (searchQuery s) r (resultLat r) (resultLng r))
      = \<lparr>lat = resultLat r, lng = resultLng r\<rparr>"
    using stored_direct c_ai by blast
  have p2: "trim e (searchQuery s) \<noteq> []
      \<and> find (localMatches (toLowerCase e) (searchQuery s)) (locations s) = None
      \<and> generateContent e (searchQuery s) = AiObject r
      \<and> \<not> (truthy (resultLat r) \<and> truthy (resultLng r))
      \<and> geocodeFetch e (fst (geocodeQuery r)) = Hits (g # rest)
      \<and> truthyNum (parseFloat e (h_lat g)) \<and> truthyNum (parseFloat e (h_lon g)) \<longrightarrow>
    searchResult (fst (handleGlobalSearch e s))
      = Some (aiLocation e (searchQuery s) r
                (JNum (parseFloat e (h_lat g))) (JNum (parseFloat e (h_lon g))))
    \<and> coordinate (aiLocation e (searchQuery s) r
                (JNum (parseFloat e (h_lat g))) (JNum (parseFloat e (h_lon g))))
      = \<lparr>lat = JNum (parseFloat e (h_lat g)), lng = JNum (parseFloat e (h_lon g))\<rparr>"
    using stored_geocoded c_ai by blast
  have p3: "trim e (searchQuery s) \<noteq> []
      \<and> find (localMatches (toLowerCase e) (searchQuery s)) (locations s) = None
      \<and> generateContent e (searchQuery s) = AiObject r
      \<and> \<not> (truthy (resultLat r) \<and> truthy (resultLng r))
      \<and> geocodeFetch e (fst (geocodeQuery r)) = Hits gs
      \<and> (gs = [] \<or> (\<exists>g' rest'. gs = g' # rest'
             \<and> \<not> (truthyNum (parseFloat e (h_lat g')) \<and> truthyNum (parseFloat e (h_lon g')))))
      \<and> fallbackFetch e (searchQuery s @ '' Singapore'') = Hits (best # others) \<longrightarrow>
    searchResult (fst (handleGlobalSearch e s))
      = Some (fallbackLocation e (searchQuery s) best)
    \<and> coordinate (fallbackLocation e (searchQuery s) best)
      = \<lparr>lat = JNum (parseFloat e (h_lat best)), lng = JNum (parseFloat e (h_lon best))\<rparr>"
  proof (intro impI, elim conjE)
    assume h: "trim e (searchQuery s) \<noteq> []"
      "find (localMatches (toLowerCase e) (searchQuery s)) (locations s) = None"
      "generateContent e (searchQuery s) = AiObject r"
      "\<not> (truthy (resultLat r) \<and> truthy (resultLng r))"
      "geocodeFetch e (fst (geocodeQuery r)) = Hits gs"
      "gs = [] \<or> (\<exists>g' rest'. gs = g' # rest'
             \<and> \<not> (truthyNum (parseFloat e (h_lat g')) \<and> truthyNum (parseFloat e (h_lon g'))))"
      "fallbackFetch e (searchQuery s @ '' Singapore'') = Hits (best # others)"
    have "coordinate (fallbackLocation e (searchQuery s) best)
      = \<lparr>lat = JNum (parseFloat e (h_lat best)), lng = JNum (parseFloat e (h_lon best))\<rparr>"
      by (simp add: fallbackLocation_def)
    with stored_fallback [OF h]
    show "searchResult (fst (handleGlobalSearch e s))
      = Some (fallbackLocation e (searchQuery s) best)
    \<and> coordinate (fallbackLocation e (searchQuery s) best)
      = \<lparr>lat = JNum (parseFloat e (h_lat best)), lng = JNum (parseFloat e (h_lon best))\<rparr>"
      by simp
  qed
  note p4 = stored_only [of e s]
  have p5: "map_option coordinate (searchResult (handleSuggestionSelect pf sg s))
       = Some \<lparr>lat = JNum (pf (sg_lat sg)), lng = JNum (pf (sg_lon sg))\<rparr>"
    by (simp add: handleSuggestionSelect_def Let_def)
  have p6: "fetchOverpass b = OverpassElements els \<longrightarrow>
        map coordinate (suggestedLocations (fst (handleSearchArea fetchOverpass b s)))
          = map (\<lambda>el. \<lparr>lat = el_lat el, lng = el_lon el\<rparr>) (filter (notSaved (locations s)) els)"
    by (simp add: handleSearchArea_def Let_def toSuggestion_def comp_def)
  from p1 p2 p3 p4 p5 p6 show ?thesis by (intro conjI)
qed

theorem coordinate_provenance_witness:
  "trim locatedEnv (searchQuery (withQuery ''Bunnies'')) \<noteq> []
   \<and> find (localMatches (toLowerCase locatedEnv) (searchQuery (withQuery ''Bunnies'')))
        (locations (withQuery ''Bunnies'')) = None
   \<and> generateContent locatedEnv (searchQuery (withQuery ''Bunnies'')) = AiObject locatedResult
   \<and> truthy (resultLat locatedResult) \<and> truthy (resultLng locatedResult)
   \<and> map_option coordinate (searchResult (fst (handleGlobalSearch locatedEnv (withQuery ''Bunnies''))))
       = Some \<lparr>lat = JNum (Finite 1.3131), lng = JNum (Finite 103.9021)\<rparr>
   \<and> generateContent postalEnv (searchQuery (withQuery ''Bunnies'')) = AiObject postalResult
   \<and> \<not> (truthy (resultLat postalResult) \<and> truthy (resultLng postalResult))
   \<and> geocodeFetch postalEnv (fst (geocodeQuery postalResult)) = Hits [jooChiatHit]
   \<and> truthyNum (parseFloat postalEnv (h_lat jooChiatHit))
   \<and> truthyNum (parseFloat postalEnv (h_lon jooChiatHit))
   \<and> map_option coordinate (searchResult (fst (handleGlobalSearch postalEnv (withQuery ''Bunnies''))))
       = Some \<lparr>lat = JNum (Finite 1.3131), lng = JNum (Finite 103.9021)\<rparr>
   \<and> generateContent fallbackHitEnv (searchQuery (withQuery ''Bunnies'')) = AiObject nameOnlyResult
   \<and> \<not> (truthy (resultLat nameOnlyResult) \<and> truthy (resultLng nameOnlyResult))
   \<and> geocodeFetch fallbackHitEnv (fst (geocodeQuery nameOnlyResult)) = Hits []
   \<and> fallbackFetch fallbackHitEnv (searchQuery (withQuery ''Bunnies'') @ '' Singapore'')
       = Hits [exampleHit]
   \<and> map_option coordinate (searchResult (fst (handleGlobalSearch fallbackHitEnv (withQuery ''Bunnies''))))
       = Some \<lparr>lat = JNum (Finite 1.3521), lng = JNum (Finite 103.8198)\<rparr>
   \<and> overpassMerlion exampleBounds = OverpassElements merlionElements
   \<and> map coordinate (suggestedLocations
        (fst (handleSearchArea overpassMerlion exampleBounds initialState)))
       = map (\<lambda>el. \<lparr>lat = el_lat el, lng = el_lon el\<rparr>)
           (filter (notSaved (locations initialState)) merlionElements)"
proof -
  let ?s = "withQuery ''Bunnies''"
  have a1: "trim locatedEnv (searchQuery ?s) \<noteq> []" by code_simp
  have b1: "find (localMatches (toLowerCase locatedEnv) (searchQuery ?s)) (locations ?s) = None"
    by code_simp
  have c1: "generateContent locatedEnv (searchQuery ?s) = AiObject locatedResult"
    by (simp add: locatedEnv_def)
  have la: "resultLat locatedResult = JNum (Finite 1.3131)"
    by (simp add: locatedResult_def resultLat_def)
  have lo: "resultLng locatedResult = JNum (Finite 103.9021)"
    by (simp add: locatedResult_def resultLng_def)
  have d1: "truthy (resultLat locatedResult)" unfolding la by simp
  have f1: "truthy (resultLng locatedResult)" unfolding lo by simp
  from coordinate_provenance [where e = locatedEnv and s = ?s and r = locatedResult]
       a1 b1 c1 d1 f1
  have "searchResult (fst (handleGlobalSearch locatedEnv ?s))
          = Some (aiLocation locatedEnv (searchQuery ?s) locatedResult
                    (resultLat locatedResult) (resultLng locatedResult))
        \<and> coordinate (aiLocation locatedEnv (searchQuery ?s) locatedResult
                    (resultLat locatedResult) (resultLng locatedResult))
          = \<lparr>lat = resultLat locatedResult, lng = resultLng locatedResult\<rparr>"
    by blast
  then have r1: "map_option coordinate (searchResult (fst (handleGlobalSearch locatedEnv ?s)))
       = Some \<lparr>lat = JNum (Finite 1.3131), lng = JNum (Finite 103.9021)\<rparr>"
    unfolding la lo by simp

  have a2: "trim postalEnv (searchQuery ?s) \<noteq> []" by code_simp
  have b2: "find (localMatches (toLowerCase postalEnv) (searchQuery ?s)) (locations ?s) = None"
    by code_simp
  have c2: "generateContent postalEnv (searchQuery ?s) = AiObject postalResult"
    by (simp add: postalEnv_def)
  have d2: "\<not> (truthy (resultLat postalResult) \<and> truthy (resultLng postalResult))"
    by (simp add: postalResult_def resultLat_def)
  have g2: "geocodeFetch postalEnv (fst (geocodeQuery postalResult)) = Hits [jooChiatHit]"
    by code_simp
  have pla: "parseFloat postalEnv (h_lat jooChiatHit) = Finite 1.3131" by code_simp
  have plo: "parseFloat postalEnv (h_lon jooChiatHit) = Finite 103.9021" by code_simp
  have t2a: "truthyNum (parseFloat postalEnv (h_lat jooChiatHit))" unfolding pla by simp
  have t2b: "truthyNum (parseFloat postalEnv (h_lon jooChiatHit))" unfolding plo by simp
  from coordinate_provenance [where e = postalEnv and s = ?s and r = postalResult
                                and g = jooChiatHit and rest = "[]"]
       a2 b2 c2 d2 g2 t2a t2b
  have "searchResult (fst (handleGlobalSearch postalEnv ?s))
      = Some (aiLocation postalEnv (searchQuery ?s) postalResult
                (JNum (parseFloat postalEnv (h_lat jooChiatHit)))
                (JNum (parseFloat postalEnv (h_lon jooChiatHit))))
    \<and> coordinate (aiLocation postalEnv (searchQuery ?s) postalResult
                (JNum (parseFloat postalEnv (h_lat jooChiatHit)))
                (JNum (parseFloat postalEnv (h_lon jooChiatHit))))
      = \<lparr>lat = JNum (parseFloat postalEnv (h_lat jooChiatHit)),
         lng = JNum (parseFloat postalEnv (h_lon jooChiatHit))\<rparr>"
    by blast
  then have r2: "map_option coordinate (searchResult (fst (handleGlobalSearch postalEnv ?s)))
       = Some \<lparr>lat = JNum (Finite 1.3131), lng = JNum (Finite 103.9021)\<rparr>"
    unfolding pla plo by simp

  have a3: "trim fallbackHitEnv (searchQuery ?s) \<noteq> []" by code_simp
  have b3: "find (localMatches (toLowerCase fallbackHitEnv) (searchQuery ?s)) (locations ?s) = None"
    by code_simp
  have c3: "generateContent fallbackHitEnv (searchQuery ?s) = AiObject nameOnlyResult"
    by (simp add: fallbackHitEnv_def)
  have d3: "\<not> (truthy (resultLat nameOnlyResult) \<and> truthy (resultLng nameOnlyResult))"
    by (simp add: nameOnlyResult_def resultLat_def)
  have g3: "geocodeFetch fallbackHitEnv (fst (geocodeQuery nameOnlyResult)) = Hits []"
    by (simp add: fallbackHitEnv_def)
  have e3: "[] = [] \<or> (\<exists>g' rest'. [] = g' # rest'
             \<and> \<not> (truthyNum (parseFloat fallbackHitEnv (h_lat g'))
                   \<and> truthyNum (parseFloat fallbackHitEnv (h_lon g'))))"
    by simp
  have f3: "fallbackFetch fallbackHitEnv (searchQuery ?s @ '' Singapore'') = Hits [exampleHit]"
    by (simp add: fallbackHitEnv_def)
  have fla: "parseFloat fallbackHitEnv (h_lat exampleHit) = Finite 1.3521" by code_simp
  have flo: "parseFloat fallbackHitEnv (h_lon exampleHit) = Finite 103.8198" by code_simp
  from coordinate_provenance [where e = fallbackHitEnv and s = ?s and r = nameOnlyResult
                                and gs = "[]" and best = exampleHit and others = "[]"]
       a3 b3 c3 d3 g3 e3 f3
  have "searchResult (fst (handleGlobalSearch fallbackHitEnv ?s))
      = Some (fallbackLocation fallbackHitEnv (searchQuery ?s) exampleHit)
    \<and> coordinate (fallbackLocation fallbackHitEnv (searchQuery ?s) exampleHit)
      = \<lparr>lat = JNum (parseFloat fallbackHitEnv (h_lat exampleHit)),
         lng = JNum (parseFloat fallbackHitEnv (h_lon exampleHit))\<rparr>"
    by blast
  then have r3: "map_option coordinate (searchResult (fst (handleGlobalSearch fallbackHitEnv ?s)))
       = Some \<lparr>lat = JNum (Finite 1.3521), lng = JNum (Finite 103.8198)\<rparr>"
    unfolding fla flo by simp

  have fe: "overpassMerlion exampleBounds = OverpassElements merlionElements"
    by (simp add: overpassMerlion_def)
  from coordinate_provenance [where s = initialState and fetchOverpass = overpassMerlion
                                and b = exampleBounds and els = merlionElements] fe
  have r4: "map coordinate (suggestedLocations
        (fst (handleSearchArea overpassMerlion exampleBounds initialState)))
       = map (\<lambda>el. \<lparr>lat = el_lat el, lng = el_lon el\<rparr>)
           (filter (notSaved (locations initialState)) merlionElements)"
    by blast
  from a1 b1 c1 d1 f1 r1 c2 d2 g2 t2a t2b r2 c3 d3 g3 f3 r3 fe r4 show ?thesis by blast
qed

end
